theory Spec2Isabelle
  imports Complex_Main
begin

section \<open>JavaScript values used by the game\<close>

text \<open>
  Positions, velocities, times and configuration values are JavaScript numbers. They are
  modelled as real numbers: the properties below depend on comparisons and on sums of a few
  terms, not on rounding. The one place where a non-number enters an arithmetic expression
  (a property that is read but never assigned) is modelled with \<open>jsnum\<close>, which adds NaN
  to the reals with JavaScript's rules: arithmetic with NaN gives NaN, and every comparison
  with NaN is false.
\<close>

datatype jsnum = Num real | NaN

text \<open>ToNumber of a property read: \<open>None\<close> is \<open>undefined\<close>, which converts to NaN.\<close>

fun toNumber :: "real option \<Rightarrow> jsnum" where
  "toNumber None = NaN"
| "toNumber (Some r) = Num r"

fun jmul :: "jsnum \<Rightarrow> jsnum \<Rightarrow> jsnum" where
  "jmul (Num a) (Num b) = Num (a * b)"
| "jmul _ _ = NaN"

fun jsub :: "jsnum \<Rightarrow> jsnum \<Rightarrow> jsnum" where
  "jsub (Num a) (Num b) = Num (a - b)"
| "jsub _ _ = NaN"

text \<open>Division by the literal 2.\<close>

fun jhalf :: "jsnum \<Rightarrow> jsnum" where
  "jhalf (Num a) = Num (a / 2)"
| "jhalf NaN = NaN"

fun jlt :: "jsnum \<Rightarrow> jsnum \<Rightarrow> bool" where
  "jlt (Num a) (Num b) = (a < b)"
| "jlt _ _ = False"

fun jgt :: "jsnum \<Rightarrow> jsnum \<Rightarrow> bool" where
  "jgt (Num a) (Num b) = (a > b)"
| "jgt _ _ = False"

section \<open>Player.js\<close>

datatype powerup_state = Normal | PropellerHat | Jetpack | SpringShoes

datatype direction = FacingLeft | FacingRight

datatype anim = IdleAnim | ShootingAnim | JetpackAnim | SpringShoesAnim | PropellerHatAnim

text \<open>Calls into the engine that leave no trace in the player's own fields are logged.\<close>

datatype timer = ShootAnimEnd | BulletExpire

datatype effect =
    PlaySound string
  | LoopSound string
  | StopSound string
  | LaunchScene string
  | DelayedCall real timer

text \<open>The values of gameConfig.json that Player.js reads (the file is not part of the sources).\<close>

record playerConfig =
  cfg_moveSpeed :: real
  cfg_jumpPower :: real
  cfg_shootCooldown :: real
  cfg_jetpackDuration :: real
  cfg_jetpackPower :: real
  cfg_springShoesDuration :: real
  cfg_springShoesMultiplier :: real
  cfg_propellerHatDuration :: real
  cfg_propellerHatPower :: real
  cfg_springBounceMultiplier :: real

text \<open>
  The fields of a Player object. \<open>pos_x\<close>, \<open>pos_y\<close> are the sprite's \<open>x\<close>, \<open>y\<close>;
  \<open>vel_x\<close>, \<open>vel_y\<close> are \<open>body.velocity\<close>; \<open>width\<close> is the sprite's frame width;
  \<open>active\<close> and \<open>hasBody\<close> are the engine's \<open>active\<close> flag and the presence of \<open>body\<close>;
  \<open>currentAnim\<close> is the animation last started with \<open>play\<close>, and \<open>scale\<close> the scale set by
  \<open>resetOriginAndOffset\<close> (its origin and body offset are rendering data and are left out).
\<close>

record player =
  pos_x :: real
  pos_y :: real
  vel_x :: real
  vel_y :: real
  width :: real
  active :: bool
  hasBody :: bool
  facingDirection :: direction
  flipX :: bool
  moveSpeed :: real
  jumpPower :: real
  isDead :: bool
  canShoot :: bool
  lastShootTime :: real
  shootCooldown :: real
  isShooting :: bool
  shootingDuration :: real
  hasJetpack :: bool
  jetpackStartTime :: real
  jetpackDuration :: real
  jetpackPower :: real
  hasSpringShoes :: bool
  springShoesStartTime :: real
  springShoesDuration :: real
  springShoesMultiplier :: real
  hasPropellerHat :: bool
  propellerHatStartTime :: real
  propellerHatDuration :: real
  propellerHatPower :: real
  currentPowerupState :: powerup_state
  jetpackSoundPlaying :: bool
  propellerSoundPlaying :: bool
  currentAnim :: anim
  scale :: real
  effects :: "effect list"

text \<open>
  \<open>this.characterScale\<close> is read in \<open>handleMovement\<close>. No statement of Player.js or of the
  scene assigns it and the constructor does not declare it, so the read yields \<open>undefined\<close>.
\<close>

definition characterScale :: "player \<Rightarrow> real option" where
  "characterScale p = None"

text \<open>What the scene and its camera provide during one frame.\<close>

record scene_env =
  time_now :: real
  cam_width :: real
  cam_height :: real
  cam_scrollY :: real

record cursors =
  left_isDown :: bool
  right_isDown :: bool
  up_isDown :: bool
  space_isDown :: bool

text \<open>Game objects kept in the scene's groups: a position and the engine's \<open>active\<close> flag.\<close>

record entity =
  ent_x :: real
  ent_y :: real
  ent_active :: bool

text \<open>
  \<open>destroy()\<close> clears the object's \<open>active\<close> flag. The engine also takes a destroyed object
  out of its group. An overlap callback destroys the one object it was called with, and the
  model keeps that object, inactive, at its place in the list; where a group is iterated
  while its members are destroyed (\<open>cleanupOffScreenObjects\<close>) the removal is modelled.
\<close>

definition destroy :: "('a entity_scheme) \<Rightarrow> ('a entity_scheme)" where
  "destroy e = e\<lparr>ent_active := False\<rparr>"

subsection \<open>Animations\<close>

fun animKey :: "powerup_state \<Rightarrow> anim" where
  "animKey PropellerHat = PropellerHatAnim"
| "animKey Jetpack = JetpackAnim"
| "animKey SpringShoes = SpringShoesAnim"
| "animKey Normal = IdleAnim"

fun animScale :: "anim \<Rightarrow> real" where
  "animScale IdleAnim = 0.1"
| "animScale ShootingAnim = 0.08"
| "animScale JetpackAnim = 0.081"
| "animScale SpringShoesAnim = 0.085"
| "animScale PropellerHatAnim = 0.065"

definition resetOriginAndOffset :: "player \<Rightarrow> player" where
  "resetOriginAndOffset p = p\<lparr>scale := animScale (currentAnim p)\<rparr>"

definition forceUpdateAnimation :: "player \<Rightarrow> player" where
  "forceUpdateAnimation p =
     (if isShooting p then p
      else resetOriginAndOffset (p\<lparr>currentAnim := animKey (currentPowerupState p)\<rparr>))"

definition updateAnimations :: "player \<Rightarrow> player" where
  "updateAnimations p =
     (if isShooting p then p
      else resetOriginAndOffset (p\<lparr>currentAnim := animKey (currentPowerupState p)\<rparr>))"

subsection \<open>Looping sounds\<close>

definition playJetpackSound :: "player \<Rightarrow> player" where
  "playJetpackSound p =
     (if \<not> jetpackSoundPlaying p
      then p\<lparr>jetpackSoundPlaying := True, effects := effects p @ [LoopSound ''jetpack_thrust'']\<rparr>
      else p)"

definition stopJetpackSound :: "player \<Rightarrow> player" where
  "stopJetpackSound p =
     (if jetpackSoundPlaying p
      then p\<lparr>jetpackSoundPlaying := False, effects := effects p @ [StopSound ''jetpack_thrust'']\<rparr>
      else p)"

definition playPropellerSound :: "player \<Rightarrow> player" where
  "playPropellerSound p =
     (if \<not> propellerSoundPlaying p
      then p\<lparr>propellerSoundPlaying := True,
             effects := effects p @ [LoopSound ''propeller_spinning'']\<rparr>
      else p)"

definition stopPropellerSound :: "player \<Rightarrow> player" where
  "stopPropellerSound p =
     (if propellerSoundPlaying p
      then p\<lparr>propellerSoundPlaying := False,
             effects := effects p @ [StopSound ''propeller_spinning'']\<rparr>
      else p)"

subsection \<open>The constructor\<close>

text \<open>
  \<open>Player_new cfg w x y\<close> is \<open>new Player(scene, x, y)\<close> with the configuration \<open>cfg\<close>;
  \<open>w\<close> is the frame width of the sprite's texture.
\<close>

definition Player_new :: "playerConfig \<Rightarrow> real \<Rightarrow> real \<Rightarrow> real \<Rightarrow> player" where
  "Player_new cfg w x y =
     resetOriginAndOffset
       \<lparr> pos_x = x, pos_y = y, vel_x = 0, vel_y = 0, width = w,
         active = True, hasBody = True,
         facingDirection = FacingRight, flipX = False,
         moveSpeed = cfg_moveSpeed cfg, jumpPower = cfg_jumpPower cfg,
         isDead = False, canShoot = True, lastShootTime = 0,
         shootCooldown = cfg_shootCooldown cfg,
         isShooting = False, shootingDuration = 200,
         hasJetpack = False, jetpackStartTime = 0,
         jetpackDuration = cfg_jetpackDuration cfg, jetpackPower = cfg_jetpackPower cfg,
         hasSpringShoes = False, springShoesStartTime = 0,
         springShoesDuration = cfg_springShoesDuration cfg,
         springShoesMultiplier = cfg_springShoesMultiplier cfg,
         hasPropellerHat = False, propellerHatStartTime = 0,
         propellerHatDuration = cfg_propellerHatDuration cfg,
         propellerHatPower = cfg_propellerHatPower cfg,
         currentPowerupState = Normal,
         jetpackSoundPlaying = False, propellerSoundPlaying = False,
         currentAnim = IdleAnim, scale = 0.1, effects = [] \<rparr>"

subsection \<open>updatePowerupStates\<close>

text \<open>
  The three checks of \<open>updatePowerupStates\<close>, in the order of the source. Each takes the
  player and the local variable \<open>newPowerupState\<close> and returns both.
\<close>

definition checkPropellerHat :: "real \<Rightarrow> player \<times> powerup_state \<Rightarrow> player \<times> powerup_state" where
  "checkPropellerHat currentTime s =
     (case s of (p, newPowerupState) \<Rightarrow>
        if hasPropellerHat p then
          (if currentTime - propellerHatStartTime p > propellerHatDuration p
           then (stopPropellerSound (p\<lparr>hasPropellerHat := False\<rparr>), newPowerupState)
           else (playPropellerSound p, PropellerHat))
        else (p, newPowerupState))"

definition checkJetpack :: "real \<Rightarrow> player \<times> powerup_state \<Rightarrow> player \<times> powerup_state" where
  "checkJetpack currentTime s =
     (case s of (p, newPowerupState) \<Rightarrow>
        if hasJetpack p \<and> newPowerupState = Normal then
          (if currentTime - jetpackStartTime p > jetpackDuration p
           then (stopJetpackSound (p\<lparr>hasJetpack := False\<rparr>), newPowerupState)
           else (p, Jetpack))
        else (p, newPowerupState))"

definition checkSpringShoes :: "real \<Rightarrow> player \<times> powerup_state \<Rightarrow> player \<times> powerup_state" where
  "checkSpringShoes currentTime s =
     (case s of (p, newPowerupState) \<Rightarrow>
        if hasSpringShoes p \<and> newPowerupState = Normal then
          (if currentTime - springShoesStartTime p > springShoesDuration p
           then (p\<lparr>hasSpringShoes := False\<rparr>, newPowerupState)
           else (p, SpringShoes))
        else (p, newPowerupState))"

definition stopUnrelatedSounds :: "player \<times> powerup_state \<Rightarrow> player \<times> powerup_state" where
  "stopUnrelatedSounds s =
     (case s of (p, newPowerupState) \<Rightarrow>
        let p1 = (if newPowerupState \<noteq> Jetpack then stopJetpackSound p else p);
            p2 = (if newPowerupState \<noteq> PropellerHat then stopPropellerSound p1 else p1)
        in (p2, newPowerupState))"

definition updatePowerupStates :: "real \<Rightarrow> player \<Rightarrow> player" where
  "updatePowerupStates currentTime p =
     (case stopUnrelatedSounds
             (checkSpringShoes currentTime
               (checkJetpack currentTime
                 (checkPropellerHat currentTime (p, Normal)))) of
        (p', newPowerupState) \<Rightarrow>
          if currentPowerupState p' \<noteq> newPowerupState
          then forceUpdateAnimation (p'\<lparr>currentPowerupState := newPowerupState\<rparr>)
          else p')"

subsection \<open>Shooting\<close>

text \<open>
  \<open>shoot\<close> returns the player and the bullet it creates; the scene adds the bullet to its
  bullet group. The two delayed calls are logged; their callbacks are \<open>shootAnimEnd\<close> and
  \<open>bulletExpire\<close>.
\<close>

definition shoot :: "player \<Rightarrow> player \<times> entity" where
  "shoot p =
     (let p1 = resetOriginAndOffset (p\<lparr>isShooting := True, currentAnim := ShootingAnim\<rparr>);
          bullet = \<lparr>ent_x = pos_x p1, ent_y = pos_y p1 - 35, ent_active = True\<rparr>;
          p2 = p1\<lparr>effects := effects p1 @
                  [PlaySound ''shoot_sound'',
                   DelayedCall (shootingDuration p1) ShootAnimEnd,
                   DelayedCall 2000 BulletExpire]\<rparr>
      in (p2, bullet))"

definition shootAnimEnd :: "player \<Rightarrow> player" where
  "shootAnimEnd p = p\<lparr>isShooting := False\<rparr>"

definition bulletExpire :: "entity \<Rightarrow> entity" where
  "bulletExpire b = (if ent_active b then destroy b else b)"

definition handleShooting :: "real \<Rightarrow> bool \<Rightarrow> player \<Rightarrow> player \<times> entity list" where
  "handleShooting currentTime spaceJustDown p =
     (if spaceJustDown \<and> canShoot p then
        (if currentTime - lastShootTime p > shootCooldown p then
           (case shoot p of (p1, bullet) \<Rightarrow> (p1\<lparr>lastShootTime := currentTime\<rparr>, [bullet]))
         else (p, []))
      else (p, []))"

subsection \<open>Movement\<close>

text \<open>
  The assignment \<open>this.x = v\<close> of \<open>handleMovement\<close>. Both assignments there stand under a
  comparison with \<open>v\<close> that is true, and a comparison with NaN is false, so \<open>v\<close> is a number
  whenever the assignment is reached.
\<close>

fun setX :: "jsnum \<Rightarrow> player \<Rightarrow> player" where
  "setX (Num v) p = p\<lparr>pos_x := v\<rparr>"
| "setX NaN p = p"

definition handleMovement :: "scene_env \<Rightarrow> cursors \<Rightarrow> player \<Rightarrow> player" where
  "handleMovement env c p =
     (let p1 = (if left_isDown c then p\<lparr>vel_x := - moveSpeed p, facingDirection := FacingLeft\<rparr>
                else if right_isDown c
                then p\<lparr>vel_x := moveSpeed p, facingDirection := FacingRight\<rparr>
                else p\<lparr>vel_x := 0\<rparr>);
          p2 = p1\<lparr>flipX := (facingDirection p1 = FacingLeft)\<rparr>;
          p3 = (if hasPropellerHat p2 then p2\<lparr>vel_y := - propellerHatPower p2\<rparr>
                else if hasJetpack p2 \<and> (up_isDown c \<or> space_isDown c)
                then playJetpackSound (p2\<lparr>vel_y := - jetpackPower p2\<rparr>)
                else p2);
          screenWidth = Num (cam_width env);
          halfWidth = jhalf (jmul (Num (width p3)) (toNumber (characterScale p3)))
      in if jlt (Num (pos_x p3)) halfWidth
         then (setX halfWidth p3)\<lparr>vel_x := 0\<rparr>
         else if jgt (Num (pos_x p3)) (jsub screenWidth halfWidth)
         then (setX (jsub screenWidth halfWidth) p3)\<lparr>vel_x := 0\<rparr>
         else p3)"

subsection \<open>Jumping, collecting, dying\<close>

text \<open>
  \<open>jump(velocityY = null)\<close>: \<open>None\<close> is a call without argument. \<open>velocityY || -jumpPower\<close>
  takes the default also for the falsy number 0.
\<close>

definition jump :: "real option \<Rightarrow> player \<Rightarrow> player" where
  "jump velocityY p =
     (let jumpVelocity = (case velocityY of
                            None \<Rightarrow> - jumpPower p
                          | Some v \<Rightarrow> if v = 0 then - jumpPower p else v);
          multiplier = (if hasSpringShoes p then springShoesMultiplier p else 1)
      in p\<lparr>vel_y := jumpVelocity * multiplier,
           effects := effects p @ [PlaySound ''jump_sound'']\<rparr>)"

definition springJump :: "playerConfig \<Rightarrow> player \<Rightarrow> player" where
  "springJump cfg p =
     (let springVelocity = - jumpPower p * cfg_springBounceMultiplier cfg;
          multiplier = (if hasSpringShoes p then springShoesMultiplier p else 1)
      in p\<lparr>vel_y := springVelocity * multiplier,
           effects := effects p @ [PlaySound ''spring_boing'']\<rparr>)"

definition collectPowerup :: "real \<Rightarrow> string \<Rightarrow> player \<Rightarrow> player" where
  "collectPowerup currentTime powerupType p =
     (let p1 = p\<lparr>effects := effects p @ [PlaySound ''powerup_collect'']\<rparr>;
          p2 = (if powerupType = ''propeller_hat'' then
                  p1\<lparr>hasPropellerHat := True, propellerHatStartTime := currentTime,
                     currentPowerupState := PropellerHat\<rparr>
                else if powerupType = ''jetpack'' then
                  (let q = p1\<lparr>hasJetpack := True, jetpackStartTime := currentTime\<rparr>
                   in if \<not> hasPropellerHat q then q\<lparr>currentPowerupState := Jetpack\<rparr> else q)
                else if powerupType = ''spring_shoes'' then
                  (let q = p1\<lparr>hasSpringShoes := True, springShoesStartTime := currentTime\<rparr>
                   in if \<not> hasPropellerHat q \<and> \<not> hasJetpack q
                      then q\<lparr>currentPowerupState := SpringShoes\<rparr> else q)
                else p1)
      in forceUpdateAnimation p2)"

definition die :: "player \<Rightarrow> player" where
  "die p =
     (if isDead p then p
      else p\<lparr>isDead := True, vel_x := 0, vel_y := 0,
             effects := effects p @ [PlaySound ''game_over'', LaunchScene ''GameOverScene'']\<rparr>)"

definition checkFallOffScreen :: "scene_env \<Rightarrow> player \<Rightarrow> player" where
  "checkFallOffScreen env p =
     (if pos_y p > cam_scrollY env + cam_height env + 200 then die p else p)"

subsection \<open>Player.update\<close>

definition Player_update :: "scene_env \<Rightarrow> cursors \<Rightarrow> bool \<Rightarrow> player \<Rightarrow> player \<times> entity list" where
  "Player_update env c spaceJustDown p =
     (if \<not> hasBody p \<or> \<not> active p \<or> isDead p then (p, [])
      else
        (case handleShooting (time_now env) spaceJustDown (updatePowerupStates (time_now env) p) of
           (p2, newBullets) \<Rightarrow>
             (checkFallOffScreen env (updateAnimations (handleMovement env c p2)), newBullets)))"

subsection \<open>Runs of a player\<close>

text \<open>
  Everything that writes to a Player object: its own methods, the callback of the
  shooting timer, and the physics engine, which integrates position and velocity between
  frames. A run applies a list of such operations from left to right.
\<close>

datatype player_op =
    OpUpdate scene_env cursors bool
  | OpCollectPowerup real string
  | OpJump "real option"
  | OpSpringJump playerConfig
  | OpDie
  | OpShootAnimEnd
  | OpPhysics real real real real

fun player_apply :: "player_op \<Rightarrow> player \<Rightarrow> player" where
  "player_apply (OpUpdate env c spaceJustDown) p = fst (Player_update env c spaceJustDown p)"
| "player_apply (OpCollectPowerup currentTime powerupType) p =
     collectPowerup currentTime powerupType p"
| "player_apply (OpJump velocityY) p = jump velocityY p"
| "player_apply (OpSpringJump cfg) p = springJump cfg p"
| "player_apply OpDie p = die p"
| "player_apply OpShootAnimEnd p = shootAnimEnd p"
| "player_apply (OpPhysics x y vx vy) p = p\<lparr>pos_x := x, pos_y := y, vel_x := vx, vel_y := vy\<rparr>"

fun player_run :: "player_op list \<Rightarrow> player \<Rightarrow> player" where
  "player_run [] p = p"
| "player_run (op # ops) p = player_run ops (player_apply op p)"

text \<open>
  The dominant state in the words of the specification: the first buff, in the order
  propeller hat, jetpack, spring shoes, whose flag is set; \<open>normal\<close> when none is.
\<close>

definition dominantState :: "player \<Rightarrow> powerup_state" where
  "dominantState p =
     (if hasPropellerHat p then PropellerHat
      else if hasJetpack p then Jetpack
      else if hasSpringShoes p then SpringShoes
      else Normal)"

text \<open>How often the game-over scene has been launched on behalf of this player.\<close>

definition gameOverLaunches :: "player \<Rightarrow> nat" where
  "gameOverLaunches p = count_list (effects p) (LaunchScene ''GameOverScene'')"

section \<open>GameScene\<close>

text \<open>
  The objects in the scene's groups. A platform carries the type given to its constructor,
  a power-up the type given to its constructor.
\<close>

record platform = entity +
  platformType :: string

record powerup = entity +
  powerupType :: string

text \<open>
  Modelled from the spec: Enemy.js is not among the sources. The specification speaks of an
  enemy's remaining hit points, of a hit being registered and of the enemy being defeated;
  an enemy is an entity with a number of remaining hit points.
\<close>

record enemy = entity +
  hitPoints :: nat

text \<open>The values of gameConfig.json that the scene reads.\<close>

record gameConfig =
  screenWidth :: real
  screenHeight :: real
  enemySpawnChance :: real
  scoreMultiplier :: int
  enemyHitPoints :: nat

record game =
  gameStarted :: bool
  gameOver :: bool
  score :: int
  highestY :: int
  platforms :: "platform list"
  enemies :: "enemy list"
  powerups :: "powerup list"
  bullets :: "entity list"
  scene_player :: player
  lastPlatformY :: real
  platformSpacing :: real

text \<open>
  The randomness of one call of \<open>generateNewPlatforms\<close>. Each call of
  \<open>Phaser.Math.Between\<close> consumes one value of \<open>Math.random()\<close>: \<open>rand_platformX k\<close> is
  the one of the call in the attempt with \<open>attempts = k\<close>, \<open>rand_enemyRoll\<close>, \<open>rand_enemyX\<close>
  and \<open>rand_powerupX\<close> are those of the three later calls. \<open>draw_platformType\<close> is the
  result of \<open>Platform.getRandomPlatformType()\<close> and \<open>draw_powerupType\<close> the result of
  \<open>Powerup.getRandomPowerupType()\<close> (\<open>None\<close> when it is falsy).
\<close>

record draws =
  rand_platformX :: "nat \<Rightarrow> real"
  draw_platformType :: string
  rand_enemyRoll :: real
  rand_enemyX :: real
  draw_powerupType :: "string option"
  rand_powerupX :: real

text \<open>
  Modelled from the spec: \<open>Phaser.Math.Between\<close> belongs to the engine and is not among the
  sources. The specification has it draw a value from \<open>[lo, hi]\<close>; the engine computes a
  whole number from a value \<open>r\<close> of \<open>Math.random()\<close> as
  \<open>Math.floor(r * (hi - lo + 1) + lo)\<close>.
\<close>

definition Between :: "real \<Rightarrow> real \<Rightarrow> real \<Rightarrow> real" where
  "Between lo hi r = of_int \<lfloor>r * (hi - lo + 1) + lo\<rfloor>"

subsection \<open>generateNewPlatforms\<close>

text \<open>\<open>Phaser.Math.Distance.Between\<close>: the Euclidean distance of two points.\<close>

definition Distance_Between :: "real \<Rightarrow> real \<Rightarrow> real \<Rightarrow> real \<Rightarrow> real" where
  "Distance_Between x1 y1 x2 y2 = sqrt ((x1 - x2) * (x1 - x2) + (y1 - y2) * (y1 - y2))"

definition overlapsExisting :: "platform list \<Rightarrow> real \<Rightarrow> real \<Rightarrow> bool" where
  "overlapsExisting entries x newY =
     list_ex (\<lambda>platform.
        if \<not> ent_active platform then False
        else Distance_Between x newY (ent_x platform) (ent_y platform) < 60) entries"

text \<open>
  The local variables of the placement loop together with the cursor \<open>this.lastPlatformY\<close>.
  \<open>x\<close> and \<open>newY\<close> are declared without a value.
\<close>

record placement =
  validPosition :: bool
  attempts :: nat
  cand_x :: "real option"
  cand_newY :: "real option"
  cursorY :: real

function placementLoop ::
  "real \<Rightarrow> real \<Rightarrow> platform list \<Rightarrow> (nat \<Rightarrow> real) \<Rightarrow> placement \<Rightarrow> placement" where
  "placementLoop spacing screenW entries rnd s =
     (if \<not> validPosition s \<and> attempts s < 10 then
        (let lastY = cursorY s - spacing;
             newY = lastY;
             x = Between 80 (screenW - 80) (rnd (attempts s));
             overlap = overlapsExisting entries x newY
         in placementLoop spacing screenW entries rnd
              \<lparr> validPosition = (if \<not> overlap then True else validPosition s),
                attempts = attempts s + 1,
                cand_x = Some x, cand_newY = Some newY, cursorY = lastY \<rparr>)
      else s)"
  by pat_completeness auto
termination
  by (relation "measure (\<lambda>(spacing, screenW, entries, rnd, s). 10 - attempts s)") auto

declare placementLoop.simps [simp del]

definition new_Platform :: "real \<Rightarrow> real \<Rightarrow> string \<Rightarrow> platform" where
  "new_Platform x y type = \<lparr>ent_x = x, ent_y = y, ent_active = True, platformType = type\<rparr>"

definition new_Powerup :: "real \<Rightarrow> real \<Rightarrow> string \<Rightarrow> powerup" where
  "new_Powerup x y type = \<lparr>ent_x = x, ent_y = y, ent_active = True, powerupType = type\<rparr>"

text \<open>
  Modelled from the spec: the constructor of Enemy.js is not among the sources; a new enemy
  stands at the given position with the configured number of hit points.
\<close>

definition new_Enemy :: "gameConfig \<Rightarrow> real \<Rightarrow> real \<Rightarrow> enemy" where
  "new_Enemy cfg x y = \<lparr>ent_x = x, ent_y = y, ent_active = True, hitPoints = enemyHitPoints cfg\<rparr>"

definition spawnOnPlatform :: "gameConfig \<Rightarrow> draws \<Rightarrow> real \<Rightarrow> real \<Rightarrow> game \<Rightarrow> game" where
  "spawnOnPlatform cfg d x newY g =
     (let g1 = g\<lparr>platforms := platforms g @ [new_Platform x newY (draw_platformType d)]\<rparr>;
          g2 = (if Between 1 100 (rand_enemyRoll d) \<le> enemySpawnChance cfg
                then (let enemyX = Between 80 (screenWidth cfg - 80) (rand_enemyX d);
                          enemyY = newY - 80
                      in g1\<lparr>enemies := enemies g1 @ [new_Enemy cfg enemyX enemyY]\<rparr>)
                else g1)
      in (case draw_powerupType d of
            None \<Rightarrow> g2
          | Some type \<Rightarrow>
              (let powerupX = Between 80 (screenWidth cfg - 80) (rand_powerupX d);
                   powerupY = newY - 60
               in g2\<lparr>powerups := powerups g2 @ [new_Powerup powerupX powerupY type]\<rparr>)))"

definition generateNewPlatforms :: "gameConfig \<Rightarrow> scene_env \<Rightarrow> draws \<Rightarrow> game \<Rightarrow> game" where
  "generateNewPlatforms cfg env d g =
     (let cameraTop = cam_scrollY env;
          generateThreshold = cameraTop - 200
      in if lastPlatformY g > generateThreshold then
           (let s = placementLoop (platformSpacing g) (screenWidth cfg) (platforms g)
                      (rand_platformX d)
                      \<lparr> validPosition = False, attempts = 0,
                        cand_x = None, cand_newY = None, cursorY = lastPlatformY g \<rparr>;
                g1 = g\<lparr>lastPlatformY := cursorY s\<rparr>
            in if validPosition s then
                 (case (cand_x s, cand_newY s) of
                    (Some x, Some newY) \<Rightarrow> spawnOnPlatform cfg d x newY g1
                  | _ \<Rightarrow> g1)
               else g1)
         else g)"

subsection \<open>Score and height\<close>

definition updateScore :: "int \<Rightarrow> game \<Rightarrow> game" where
  "updateScore points g = g\<lparr>score := score g + points\<rparr>"

definition updateHeight :: "gameConfig \<Rightarrow> game \<Rightarrow> game" where
  "updateHeight cfg g =
     (let currentHeight = max 0 \<lfloor>(screenHeight cfg - pos_y (scene_player g)) / 10\<rfloor>
      in if currentHeight > highestY g
         then updateScore (scoreMultiplier cfg) (g\<lparr>highestY := currentHeight\<rparr>)
         else g)"

subsection \<open>cleanupOffScreenObjects\<close>

text \<open>
  The four loops of \<open>cleanupOffScreenObjects\<close> run \<open>forEach\<close> over \<open>children.entries\<close>, the
  array in which a group keeps its members. \<open>forEach\<close> reads the length of the array once and
  then visits, in order, every index below it that is still in the array. \<open>destroy()\<close> on a
  member makes the group take the member out of that same array, so the members behind it
  move down by one place while the iteration goes on.

  \<open>forEachDestroying leaves k len entries\<close> is the rest of such an iteration from index \<open>k\<close>,
  where \<open>len\<close> is the length read at the start and the callback destroys the member it is
  given when \<open>leaves\<close> holds of it. The result is the array after the iteration: the members
  that were not destroyed.
\<close>

definition removeAt :: "nat \<Rightarrow> 'a list \<Rightarrow> 'a list" where
  "removeAt k entries = take k entries @ drop (Suc k) entries"

function forEachDestroying :: "('a \<Rightarrow> bool) \<Rightarrow> nat \<Rightarrow> nat \<Rightarrow> 'a list \<Rightarrow> 'a list" where
  "forEachDestroying leaves k len entries =
     (if k < len then
        (if k < length entries then
           (if leaves (entries ! k)
            then forEachDestroying leaves (k + 1) len (removeAt k entries)
            else forEachDestroying leaves (k + 1) len entries)
         else forEachDestroying leaves (k + 1) len entries)
      else entries)"
  by pat_completeness auto
termination
  by (relation "measure (\<lambda>(leaves, k, len, entries). len - k)") auto

declare forEachDestroying.simps [simp del]

definition cleanupOffScreenObjects :: "scene_env \<Rightarrow> game \<Rightarrow> game" where
  "cleanupOffScreenObjects env g =
     (let cameraBottom = cam_scrollY env + cam_height env + 300
      in g\<lparr> platforms :=
               forEachDestroying (\<lambda>platform. ent_y platform > cameraBottom)
                 0 (length (platforms g)) (platforms g),
             enemies :=
               forEachDestroying (\<lambda>enemy. ent_y enemy > cameraBottom)
                 0 (length (enemies g)) (enemies g),
             powerups :=
               forEachDestroying (\<lambda>powerup. ent_y powerup > cameraBottom)
                 0 (length (powerups g)) (powerups g),
             bullets :=
               forEachDestroying
                 (\<lambda>bullet. ent_y bullet < cam_scrollY env - 100 \<or> ent_y bullet > cameraBottom)
                 0 (length (bullets g)) (bullets g) \<rparr>)"

subsection \<open>The overlap callbacks of setupCollisions\<close>

text \<open>
  The engine calls a callback with one member of each of the two groups; the members are
  given by their positions in the groups. Platform.js, Enemy.js and Powerup.js are not among
  the sources: the methods of these classes that a callback calls are parameters of its
  model (\<open>onPlayerLand\<close>, \<open>stepOn\<close>, \<open>collect\<close>, \<open>hitByBullet\<close>), each returning its
  result together with the objects it may have changed.
\<close>

definition playerPlatformOverlap ::
  "(platform \<Rightarrow> player \<Rightarrow> platform \<times> player) \<Rightarrow> nat \<Rightarrow> game \<Rightarrow> game" where
  "playerPlatformOverlap onPlayerLand i g =
     (if i < length (platforms g) then
        (let player = scene_player g; platform = platforms g ! i
         in if vel_y player > 0 \<and> pos_y player < ent_y platform then
              (case onPlayerLand platform player of
                 (platform', player') \<Rightarrow>
                   g\<lparr>platforms := (platforms g)[i := platform'], scene_player := player'\<rparr>)
            else g)
      else g)"

definition playerEnemyOverlap :: "(enemy \<Rightarrow> bool \<times> enemy) \<Rightarrow> nat \<Rightarrow> game \<Rightarrow> game" where
  "playerEnemyOverlap stepOn i g =
     (if i < length (enemies g) then
        (let player = scene_player g; enemy = enemies g ! i
         in if vel_y player > 0 \<and> pos_y player < ent_y enemy then
              (case stepOn enemy of
                 (stomped, enemy') \<Rightarrow>
                   (let g1 = g\<lparr>enemies := (enemies g)[i := enemy']\<rparr>
                    in if stomped
                       then updateScore 100 (g1\<lparr>scene_player := jump None (scene_player g1)\<rparr>)
                       else g1))
            else g\<lparr>gameOver := True, scene_player := die player\<rparr>)
      else g)"

definition playerPowerupOverlap ::
  "(powerup \<Rightarrow> player \<Rightarrow> bool \<times> powerup \<times> player) \<Rightarrow> nat \<Rightarrow> game \<Rightarrow> game" where
  "playerPowerupOverlap collect i g =
     (if i < length (powerups g) then
        (case collect (powerups g ! i) (scene_player g) of
           (collected, powerup', player') \<Rightarrow>
             (let g1 = g\<lparr>powerups := (powerups g)[i := powerup'], scene_player := player'\<rparr>
              in if collected then updateScore 200 g1 else g1))
      else g)"

definition bulletEnemyOverlap :: "(enemy \<Rightarrow> bool \<times> enemy) \<Rightarrow> nat \<Rightarrow> nat \<Rightarrow> game \<Rightarrow> game" where
  "bulletEnemyOverlap hitByBullet bi ei g =
     (if bi < length (bullets g) \<and> ei < length (enemies g) then
        (case hitByBullet (enemies g ! ei) of
           (hit, enemy') \<Rightarrow>
             (let g1 = g\<lparr>enemies := (enemies g)[ei := enemy']\<rparr>
              in if hit
                 then updateScore 150 (g1\<lparr>bullets := (bullets g1)[bi := destroy (bullets g1 ! bi)]\<rparr>)
                 else g1))
      else g)"

text \<open>
  Modelled from the spec: Platform.js is not among the sources. Landing resets the player's
  vertical velocity to a jump impulse (the landing bounce): the platform calls
  \<open>player.jump()\<close>.
\<close>

definition Platform_onPlayerLand :: "platform \<Rightarrow> player \<Rightarrow> platform \<times> player" where
  "Platform_onPlayerLand platform player = (platform, jump None player)"

text \<open>
  Modelled from the spec: Enemy.js is not among the sources. On a hit by a bullet the enemy
  registers damage, losing one hit point, and is defeated when none remains; the result
  says whether a hit was registered. An enemy that is no longer active (already defeated or
  destroyed) registers nothing.
\<close>

definition Enemy_hitByBullet :: "enemy \<Rightarrow> bool \<times> enemy" where
  "Enemy_hitByBullet e =
     (if \<not> ent_active e \<or> hitPoints e = 0 then (False, e)
      else (let e1 = e\<lparr>hitPoints := hitPoints e - 1\<rparr>
            in (True, if hitPoints e1 = 0 then destroy e1 else e1)))"

definition defeated :: "enemy \<Rightarrow> bool" where
  "defeated e = (hitPoints e = 0 \<and> \<not> ent_active e)"

subsection \<open>GameScene.update\<close>

text \<open>
  The inputs of one frame: the keys, the random draws, and the \<open>update\<close> methods of the
  platforms, enemies and power-ups (classes outside the sources). The background tiles and
  the events sent to the UI scene are display only and are left out.
\<close>

record frame_input =
  in_cursors :: cursors
  in_spaceJustDown :: bool
  in_draws :: draws
  in_platformUpdate :: "platform \<Rightarrow> platform"
  in_enemyUpdate :: "enemy \<Rightarrow> enemy"
  in_powerupUpdate :: "powerup \<Rightarrow> powerup"

definition GameScene_update :: "gameConfig \<Rightarrow> scene_env \<Rightarrow> frame_input \<Rightarrow> game \<Rightarrow> game" where
  "GameScene_update cfg env inp g =
     (if \<not> gameStarted g \<or> gameOver g then g
      else
        (case Player_update env (in_cursors inp) (in_spaceJustDown inp) (scene_player g) of
           (player', newBullets) \<Rightarrow>
             (let g1 = g\<lparr>scene_player := player', bullets := bullets g @ newBullets\<rparr>;
                  g2 = g1\<lparr>platforms := map (in_platformUpdate inp) (platforms g1)\<rparr>;
                  g3 = g2\<lparr>enemies := map (in_enemyUpdate inp) (enemies g2)\<rparr>;
                  g4 = g3\<lparr>powerups := map (in_powerupUpdate inp) (powerups g3)\<rparr>;
                  g5 = generateNewPlatforms cfg env (in_draws inp) g4;
                  g6 = updateHeight cfg g5
              in cleanupOffScreenObjects env g6)))"

definition startGame :: "game \<Rightarrow> game" where
  "startGame g = g\<lparr>gameStarted := True, scene_player := jump None (scene_player g)\<rparr>"

subsection \<open>Runs of the scene\<close>

text \<open>
  What happens to a scene: a frame, one of the four overlap callbacks (with whatever the
  called method of the other class does), or a step of the engine, which moves the player
  and may replace the contents of the groups.
\<close>

datatype scene_event =
    Frame scene_env frame_input
  | PlayerPlatform "platform \<Rightarrow> player \<Rightarrow> platform \<times> player" nat
  | PlayerEnemy "enemy \<Rightarrow> bool \<times> enemy" nat
  | PlayerPowerup "powerup \<Rightarrow> player \<Rightarrow> bool \<times> powerup \<times> player" nat
  | BulletEnemy "enemy \<Rightarrow> bool \<times> enemy" nat nat
  | Engine real real real real "platform list" "enemy list" "powerup list" "entity list"

fun scene_apply :: "gameConfig \<Rightarrow> scene_event \<Rightarrow> game \<Rightarrow> game" where
  "scene_apply cfg (Frame env inp) g = GameScene_update cfg env inp g"
| "scene_apply cfg (PlayerPlatform onPlayerLand i) g = playerPlatformOverlap onPlayerLand i g"
| "scene_apply cfg (PlayerEnemy stepOn i) g = playerEnemyOverlap stepOn i g"
| "scene_apply cfg (PlayerPowerup collect i) g = playerPowerupOverlap collect i g"
| "scene_apply cfg (BulletEnemy hitByBullet bi ei) g = bulletEnemyOverlap hitByBullet bi ei g"
| "scene_apply cfg (Engine x y vx vy ps es us bs) g =
     g\<lparr>scene_player := (scene_player g)\<lparr>pos_x := x, pos_y := y, vel_x := vx, vel_y := vy\<rparr>,
       platforms := ps, enemies := es, powerups := us, bullets := bs\<rparr>"

fun scene_run :: "gameConfig \<Rightarrow> scene_event list \<Rightarrow> game \<Rightarrow> game" where
  "scene_run cfg [] g = g"
| "scene_run cfg (e # es) g = scene_run cfg es (scene_apply cfg e g)"

section \<open>Notions used in the statements\<close>

text \<open>
  The expiry test of a buff, as the specification words it: \<open>now - startTime > duration\<close>.
\<close>

definition expired :: "real \<Rightarrow> real \<Rightarrow> real \<Rightarrow> bool" where
  "expired now startTime duration = (now - startTime > duration)"

text \<open>
  What holds of a player between any two operations: the current power-up state is the
  dominant one, and while the shooting flag is set the shooting animation is the current one.
\<close>

definition powerupInvariant :: "player \<Rightarrow> bool" where
  "powerupInvariant p =
     (currentPowerupState p = dominantState p \<and> (isShooting p \<longrightarrow> currentAnim p = ShootingAnim))"

definition shootAnimOK :: "player \<Rightarrow> bool" where
  "shootAnimOK p = (isShooting p \<longrightarrow> currentAnim p = ShootingAnim)"

text \<open>
  The candidate of attempt \<open>k\<close> of a call of \<open>generateNewPlatforms\<close>: the \<open>x\<close> drawn in that
  attempt, and the cursor lowered \<open>k + 1\<close> times by the spacing.
\<close>

definition candidateX :: "gameConfig \<Rightarrow> draws \<Rightarrow> nat \<Rightarrow> real" where
  "candidateX cfg d k = Between 80 (screenWidth cfg - 80) (rand_platformX d k)"

definition candidateY :: "game \<Rightarrow> nat \<Rightarrow> real" where
  "candidateY g k = lastPlatformY g - (real k + 1) * platformSpacing g"

text \<open>
  The local variables of \<open>generateNewPlatforms\<close> on entry to its loop.
\<close>

definition initialPlacement :: "game \<Rightarrow> placement" where
  "initialPlacement g =
     \<lparr> validPosition = False, attempts = 0, cand_x = None, cand_newY = None,
       cursorY = lastPlatformY g \<rparr>"

text \<open>
  The acceptance condition in the words of the specification, with the bound of the code:
  the distance to every currently active platform is at least 60.
\<close>

definition keepsDistance :: "platform list \<Rightarrow> real \<Rightarrow> real \<Rightarrow> bool" where
  "keepsDistance entries x y =
     (\<forall>p \<in> set entries. ent_active p \<longrightarrow> 60 \<le> Distance_Between x y (ent_x p) (ent_y p))"

section \<open>Example states\<close>

text \<open>
  A configuration and some states, used to run the functions on concrete inputs.
\<close>

definition example_playerConfig :: playerConfig where
  "example_playerConfig =
     \<lparr> cfg_moveSpeed = 200, cfg_jumpPower = 500, cfg_shootCooldown = 300,
       cfg_jetpackDuration = 5000, cfg_jetpackPower = 400,
       cfg_springShoesDuration = 8000, cfg_springShoesMultiplier = 3 / 2,
       cfg_propellerHatDuration = 8000, cfg_propellerHatPower = 300,
       cfg_springBounceMultiplier = 2 \<rparr>"

definition example_player :: player where
  "example_player = Player_new example_playerConfig 488 240 700"

definition hat_over_jetpack :: player where
  "hat_over_jetpack =
     collectPowerup 4000 ''propeller_hat'' (collectPowerup 0 ''jetpack'' example_player)"

definition example_env :: scene_env where
  "example_env = \<lparr>time_now = 1000, cam_width = 480, cam_height = 800, cam_scrollY = 0\<rparr>"

definition left_keys :: cursors where
  "left_keys = \<lparr>left_isDown = True, right_isDown = False, up_isDown = False, space_isDown = False\<rparr>"

definition stray_player :: player where
  "stray_player = player_apply (OpPhysics (- 50) 700 (- 200) 0) example_player"

definition example_gameConfig :: gameConfig where
  "example_gameConfig =
     \<lparr> screenWidth = 480, screenHeight = 800, enemySpawnChance = 20,
       scoreMultiplier = 10, enemyHitPoints = 1 \<rparr>"

definition touching_scene :: game where
  "touching_scene =
     \<lparr> gameStarted = True, gameOver = False, score = 0, highestY = 0,
       platforms = [new_Platform 100 40 ''normal''],
       enemies = [], powerups = [], bullets = [],
       scene_player = example_player,
       lastPlatformY = 100, platformSpacing = 60 \<rparr>"

definition touching_draws :: draws where
  "touching_draws =
     \<lparr> rand_platformX = (\<lambda>k. 80 / 321), draw_platformType = ''normal'',
       rand_enemyRoll = 99 / 100, rand_enemyX = 1 / 2,
       draw_powerupType = None, rand_powerupX = 1 / 2 \<rparr>"

definition crowded_scene :: game where
  "crowded_scene =
     \<lparr> gameStarted = True, gameOver = False, score = 0, highestY = 0,
       platforms = map (\<lambda>j. new_Platform 100 (940 - 60 * real j) ''normal'') [0..<10],
       enemies = [], powerups = [], bullets = [],
       scene_player = example_player,
       lastPlatformY = 1000, platformSpacing = 60 \<rparr>"

definition crowded_draws :: draws where
  "crowded_draws =
     \<lparr> rand_platformX = (\<lambda>k. 20 / 321), draw_platformType = ''normal'',
       rand_enemyRoll = 99 / 100, rand_enemyX = 1 / 2,
       draw_powerupType = None, rand_powerupX = 1 / 2 \<rparr>"

definition idle_keys :: cursors where
  "idle_keys = \<lparr>left_isDown = False, right_isDown = False, up_isDown = False, space_isDown = False\<rparr>"

definition idle_input :: frame_input where
  "idle_input =
     \<lparr> in_cursors = idle_keys, in_spaceJustDown = False, in_draws = touching_draws,
       in_platformUpdate = (\<lambda>platform. platform), in_enemyUpdate = (\<lambda>enemy. enemy),
       in_powerupUpdate = (\<lambda>powerup. powerup) \<rparr>"

definition climb_and_fall :: "scene_event list" where
  "climb_and_fall =
     [Engine 240 300 0 (- 100) [] [] [] [], Frame example_env idle_input,
      Engine 240 650 0 200 [] [] [] [], Frame example_env idle_input]"

definition landing_scene :: game where
  "landing_scene =
     touching_scene\<lparr>scene_player := example_player\<lparr>pos_y := 100, vel_y := 50\<rparr>,
                    platforms := [new_Platform 240 150 ''normal'']\<rparr>"

definition rising_scene :: game where
  "rising_scene =
     touching_scene\<lparr>scene_player := example_player\<lparr>pos_y := 100, vel_y := - 50\<rparr>,
                    platforms := [new_Platform 240 150 ''normal'']\<rparr>"

definition shooting_scene :: "nat \<Rightarrow> game" where
  "shooting_scene hp =
     touching_scene\<lparr>bullets := [\<lparr>ent_x = 200, ent_y = 300, ent_active = True\<rparr>],
                    enemies := [\<lparr>ent_x = 200, ent_y = 300, ent_active = True, hitPoints = hp\<rparr>]\<rparr>"

definition skipping_scene :: game where
  "skipping_scene =
     touching_scene\<lparr>platforms := [new_Platform 100 1200 ''normal'', new_Platform 100 1300 ''normal'',
                                  new_Platform 100 500 ''normal'']\<rparr>"

section \<open>Properties of the player\<close>

subsection \<open>What the methods change\<close>

lemma stopJetpackSound_upd: "stopJetpackSound p =
   p\<lparr>jetpackSoundPlaying := False,
     effects := effects p @ (if jetpackSoundPlaying p then [StopSound ''jetpack_thrust''] else [])\<rparr>"
  by (simp add: stopJetpackSound_def)

lemma playJetpackSound_upd: "playJetpackSound p =
   p\<lparr>jetpackSoundPlaying := True,
     effects := effects p @ (if jetpackSoundPlaying p then [] else [LoopSound ''jetpack_thrust''])\<rparr>"
  by (simp add: playJetpackSound_def)

lemma stopPropellerSound_upd: "stopPropellerSound p =
   p\<lparr>propellerSoundPlaying := False,
     effects := effects p @ (if propellerSoundPlaying p then [StopSound ''propeller_spinning''] else [])\<rparr>"
  by (simp add: stopPropellerSound_def)

lemma playPropellerSound_upd: "playPropellerSound p =
   p\<lparr>propellerSoundPlaying := True,
     effects := effects p @ (if propellerSoundPlaying p then [] else [LoopSound ''propeller_spinning''])\<rparr>"
  by (simp add: playPropellerSound_def)

lemma forceUpdateAnimation_upd: "forceUpdateAnimation p =
   p\<lparr>currentAnim := (if isShooting p then currentAnim p else animKey (currentPowerupState p)),
     scale := (if isShooting p then scale p else animScale (animKey (currentPowerupState p)))\<rparr>"
  by (cases "isShooting p"; simp add: forceUpdateAnimation_def resetOriginAndOffset_def)

lemma updateAnimations_upd: "updateAnimations p =
   p\<lparr>currentAnim := (if isShooting p then currentAnim p else animKey (currentPowerupState p)),
     scale := (if isShooting p then scale p else animScale (animKey (currentPowerupState p)))\<rparr>"
  by (cases "isShooting p"; simp add: updateAnimations_def resetOriginAndOffset_def)

lemmas upd_forms = stopJetpackSound_upd playJetpackSound_upd stopPropellerSound_upd playPropellerSound_upd forceUpdateAnimation_upd updateAnimations_upd

lemma checkPropellerHat_upd: "checkPropellerHat t (p, s) =
  (p\<lparr>hasPropellerHat := hasPropellerHat p \<and> \<not> expired t (propellerHatStartTime p) (propellerHatDuration p),
     propellerSoundPlaying :=
        (if hasPropellerHat p then \<not> expired t (propellerHatStartTime p) (propellerHatDuration p)
         else propellerSoundPlaying p),
     effects := effects p @
        (if hasPropellerHat p then
           (if expired t (propellerHatStartTime p) (propellerHatDuration p)
            then (if propellerSoundPlaying p then [StopSound ''propeller_spinning''] else [])
            else (if propellerSoundPlaying p then [] else [LoopSound ''propeller_spinning'']))
         else [])\<rparr>,
   if hasPropellerHat p \<and> \<not> expired t (propellerHatStartTime p) (propellerHatDuration p)
   then PropellerHat else s)"
  by (cases "hasPropellerHat p"; cases "t - propellerHatStartTime p > propellerHatDuration p";
      cases "propellerSoundPlaying p";
      simp add: checkPropellerHat_def stopPropellerSound_def playPropellerSound_def expired_def)

lemma checkJetpack_upd: "checkJetpack t (p, s) =
  (p\<lparr>hasJetpack := hasJetpack p \<and> \<not> (s = Normal \<and> expired t (jetpackStartTime p) (jetpackDuration p)),
     jetpackSoundPlaying := jetpackSoundPlaying p \<and>
        \<not> (hasJetpack p \<and> s = Normal \<and> expired t (jetpackStartTime p) (jetpackDuration p)),
     effects := effects p @
        (if hasJetpack p \<and> s = Normal \<and> expired t (jetpackStartTime p) (jetpackDuration p)
            \<and> jetpackSoundPlaying p
         then [StopSound ''jetpack_thrust''] else [])\<rparr>,
   if hasJetpack p \<and> s = Normal \<and> \<not> expired t (jetpackStartTime p) (jetpackDuration p)
   then Jetpack else s)"
  by (cases "hasJetpack p"; cases "s = Normal"; cases "t - jetpackStartTime p > jetpackDuration p";
      cases "jetpackSoundPlaying p";
      simp add: checkJetpack_def stopJetpackSound_def expired_def)

lemma checkSpringShoes_upd: "checkSpringShoes t (p, s) =
  (p\<lparr>hasSpringShoes := hasSpringShoes p \<and>
        \<not> (s = Normal \<and> expired t (springShoesStartTime p) (springShoesDuration p))\<rparr>,
   if hasSpringShoes p \<and> s = Normal \<and> \<not> expired t (springShoesStartTime p) (springShoesDuration p)
   then SpringShoes else s)"
  by (cases "hasSpringShoes p"; cases "s = Normal";
      cases "t - springShoesStartTime p > springShoesDuration p";
      simp add: checkSpringShoes_def expired_def)

lemma stopUnrelatedSounds_upd: "stopUnrelatedSounds (p, s) =
  (p\<lparr>jetpackSoundPlaying := jetpackSoundPlaying p \<and> s = Jetpack,
     propellerSoundPlaying := propellerSoundPlaying p \<and> s = PropellerHat,
     effects := effects p @
        (if s \<noteq> Jetpack \<and> jetpackSoundPlaying p then [StopSound ''jetpack_thrust''] else []) @
        (if s \<noteq> PropellerHat \<and> propellerSoundPlaying p then [StopSound ''propeller_spinning''] else [])\<rparr>, s)"
  by (cases "s = Jetpack"; cases "s = PropellerHat"; cases "jetpackSoundPlaying p";
      cases "propellerSoundPlaying p";
      simp add: stopUnrelatedSounds_def stopJetpackSound_def stopPropellerSound_def Let_def)

lemmas block_forms = checkPropellerHat_upd checkJetpack_upd checkSpringShoes_upd stopUnrelatedSounds_upd

lemma ups_hat: "hasPropellerHat (updatePowerupStates t p) =
   (hasPropellerHat p \<and> \<not> expired t (propellerHatStartTime p) (propellerHatDuration p))"
  by (simp add: updatePowerupStates_def block_forms forceUpdateAnimation_upd)

lemma ups_jet: "hasJetpack (updatePowerupStates t p) =
   (hasJetpack p \<and> \<not> (\<not> hasPropellerHat (updatePowerupStates t p) \<and>
        expired t (jetpackStartTime p) (jetpackDuration p)))"
  by (auto simp add: updatePowerupStates_def block_forms forceUpdateAnimation_upd)

lemma ups_shoes: "hasSpringShoes (updatePowerupStates t p) =
   (hasSpringShoes p \<and> \<not> (\<not> hasPropellerHat (updatePowerupStates t p) \<and>
        \<not> hasJetpack (updatePowerupStates t p) \<and>
        expired t (springShoesStartTime p) (springShoesDuration p)))"
  by (auto simp add: updatePowerupStates_def block_forms forceUpdateAnimation_upd)

lemma ups_state: "currentPowerupState (updatePowerupStates t p) =
   dominantState (updatePowerupStates t p)"
  by (auto simp add: updatePowerupStates_def block_forms forceUpdateAnimation_upd dominantState_def)

lemma ups_frame:
  "isDead (updatePowerupStates t p) = isDead p"
  "pos_x (updatePowerupStates t p) = pos_x p"
  "pos_y (updatePowerupStates t p) = pos_y p"
  "hasBody (updatePowerupStates t p) = hasBody p"
  "active (updatePowerupStates t p) = active p"
  "isShooting (updatePowerupStates t p) = isShooting p"
  by (simp_all add: updatePowerupStates_def block_forms forceUpdateAnimation_upd)

lemma count_launch_simps:
  "count_list [StopSound a] (LaunchScene b) = 0"
  "count_list [LoopSound a] (LaunchScene b) = 0"
  "count_list [PlaySound a] (LaunchScene b) = 0"
  "count_list [DelayedCall r k] (LaunchScene b) = 0"
  by simp_all

lemma ups_launches: "gameOverLaunches (updatePowerupStates t p) = gameOverLaunches p"
  by (simp add: updatePowerupStates_def block_forms forceUpdateAnimation_upd gameOverLaunches_def)

lemma shoot_fst: "fst (shoot p) =
   p\<lparr>isShooting := True, currentAnim := ShootingAnim, scale := 0.08,
     effects := effects p @ [PlaySound ''shoot_sound'',
                   DelayedCall (shootingDuration p) ShootAnimEnd,
                   DelayedCall 2000 BulletExpire]\<rparr>"
  by (simp add: shoot_def resetOriginAndOffset_def Let_def)

lemma handleShooting_fst: "fst (handleShooting t sj p) =
   (if sj \<and> canShoot p \<and> t - lastShootTime p > shootCooldown p
    then (fst (shoot p))\<lparr>lastShootTime := t\<rparr> else p)"
  by (simp add: handleShooting_def split: prod.splits)

lemma handleShooting_frame:
  "isDead (fst (handleShooting t sj p)) = isDead p"
  "pos_x (fst (handleShooting t sj p)) = pos_x p"
  "pos_y (fst (handleShooting t sj p)) = pos_y p"
  "hasPropellerHat (fst (handleShooting t sj p)) = hasPropellerHat p"
  "hasJetpack (fst (handleShooting t sj p)) = hasJetpack p"
  "hasSpringShoes (fst (handleShooting t sj p)) = hasSpringShoes p"
  "currentPowerupState (fst (handleShooting t sj p)) = currentPowerupState p"
  "gameOverLaunches (fst (handleShooting t sj p)) = gameOverLaunches p"
  by (simp_all add: handleShooting_fst shoot_fst gameOverLaunches_def)

lemma handleMovement_frame:
  "isDead (handleMovement env c p) = isDead p"
  "pos_x (handleMovement env c p) = pos_x p"
  "pos_y (handleMovement env c p) = pos_y p"
  "hasPropellerHat (handleMovement env c p) = hasPropellerHat p"
  "hasJetpack (handleMovement env c p) = hasJetpack p"
  "hasSpringShoes (handleMovement env c p) = hasSpringShoes p"
  "currentPowerupState (handleMovement env c p) = currentPowerupState p"
  "gameOverLaunches (handleMovement env c p) = gameOverLaunches p"
  by (simp_all add: handleMovement_def characterScale_def playJetpackSound_upd Let_def
      gameOverLaunches_def)

lemma updateAnimations_frame:
  "isDead (updateAnimations p) = isDead p"
  "pos_x (updateAnimations p) = pos_x p"
  "pos_y (updateAnimations p) = pos_y p"
  "hasPropellerHat (updateAnimations p) = hasPropellerHat p"
  "hasJetpack (updateAnimations p) = hasJetpack p"
  "hasSpringShoes (updateAnimations p) = hasSpringShoes p"
  "currentPowerupState (updateAnimations p) = currentPowerupState p"
  "gameOverLaunches (updateAnimations p) = gameOverLaunches p"
  by (simp_all add: updateAnimations_upd gameOverLaunches_def)

lemma die_upd: "die p =
   p\<lparr>isDead := True,
     vel_x := (if isDead p then vel_x p else 0),
     vel_y := (if isDead p then vel_y p else 0),
     effects := effects p @ (if isDead p then []
                 else [PlaySound ''game_over'', LaunchScene ''GameOverScene''])\<rparr>"
  by (cases "isDead p"; simp add: die_def)

lemma die_frame:
  "isDead (die p)"
  "pos_x (die p) = pos_x p"
  "pos_y (die p) = pos_y p"
  "hasPropellerHat (die p) = hasPropellerHat p"
  "hasJetpack (die p) = hasJetpack p"
  "hasSpringShoes (die p) = hasSpringShoes p"
  "currentPowerupState (die p) = currentPowerupState p"
  "gameOverLaunches (die p) = gameOverLaunches p + (if isDead p then 0 else 1)"
  by (simp_all add: die_upd gameOverLaunches_def)

lemma checkFallOffScreen_frame:
  "isDead p \<Longrightarrow> isDead (checkFallOffScreen env p)"
  "pos_x (checkFallOffScreen env p) = pos_x p"
  "pos_y (checkFallOffScreen env p) = pos_y p"
  "hasPropellerHat (checkFallOffScreen env p) = hasPropellerHat p"
  "hasJetpack (checkFallOffScreen env p) = hasJetpack p"
  "hasSpringShoes (checkFallOffScreen env p) = hasSpringShoes p"
  "currentPowerupState (checkFallOffScreen env p) = currentPowerupState p"
  "gameOverLaunches (checkFallOffScreen env p) =
     gameOverLaunches p + (if \<not> isDead p \<and> isDead (checkFallOffScreen env p) then 1 else 0)"
  by (simp_all add: checkFallOffScreen_def die_frame)

lemma Player_update_fst: "fst (Player_update env c sj p) =
   (if \<not> hasBody p \<or> \<not> active p \<or> isDead p then p
    else checkFallOffScreen env (updateAnimations (handleMovement env c
           (fst (handleShooting (time_now env) sj (updatePowerupStates (time_now env) p))))))"
  by (simp add: Player_update_def split: prod.splits)

lemma Player_update_pos_x: "pos_x (fst (Player_update env c sj p)) = pos_x p"
  by (simp add: Player_update_fst checkFallOffScreen_frame updateAnimations_frame
      handleMovement_frame handleShooting_frame ups_frame)

lemma Player_update_isDead: "isDead p \<Longrightarrow> isDead (fst (Player_update env c sj p))"
  by (simp add: Player_update_fst)

lemma Player_update_consistent:
  "currentPowerupState p = dominantState p \<Longrightarrow>
   currentPowerupState (fst (Player_update env c sj p)) = dominantState (fst (Player_update env c sj p))"
  using ups_state [of "time_now env" p]
  by (simp add: Player_update_fst checkFallOffScreen_frame updateAnimations_frame
      handleMovement_frame handleShooting_frame dominantState_def)

lemma Player_update_launches:
  "gameOverLaunches (fst (Player_update env c sj p)) =
     gameOverLaunches p + (if \<not> isDead p \<and> isDead (fst (Player_update env c sj p)) then 1 else 0)"
  by (simp add: Player_update_fst checkFallOffScreen_frame updateAnimations_frame
      handleMovement_frame handleShooting_frame ups_frame ups_launches)

subsection \<open>Collecting a power-up, and the invariant of the power-up state\<close>

lemma collectPowerup_flags:
  "hasPropellerHat (collectPowerup t ty p) = (hasPropellerHat p \<or> ty = ''propeller_hat'')"
  "hasJetpack (collectPowerup t ty p) = (hasJetpack p \<or> ty = ''jetpack'')"
  "hasSpringShoes (collectPowerup t ty p) = (hasSpringShoes p \<or> ty = ''spring_shoes'')"
  by (simp_all add: collectPowerup_def forceUpdateAnimation_upd Let_def)

lemma collectPowerup_startTimes:
  "propellerHatStartTime (collectPowerup t ty p) =
     (if ty = ''propeller_hat'' then t else propellerHatStartTime p)"
  "jetpackStartTime (collectPowerup t ty p) = (if ty = ''jetpack'' then t else jetpackStartTime p)"
  "springShoesStartTime (collectPowerup t ty p) =
     (if ty = ''spring_shoes'' then t else springShoesStartTime p)"
  by (simp_all add: collectPowerup_def forceUpdateAnimation_upd Let_def)

lemma collectPowerup_state:
  "currentPowerupState (collectPowerup t ty p) =
     (if ty = ''propeller_hat'' then PropellerHat
      else if ty = ''jetpack'' then (if \<not> hasPropellerHat p then Jetpack else currentPowerupState p)
      else if ty = ''spring_shoes''
      then (if \<not> hasPropellerHat p \<and> \<not> hasJetpack p then SpringShoes else currentPowerupState p)
      else currentPowerupState p)"
  by (simp add: collectPowerup_def forceUpdateAnimation_upd Let_def)

lemma collectPowerup_frame:
  "isDead (collectPowerup t ty p) = isDead p"
  "pos_x (collectPowerup t ty p) = pos_x p"
  "isShooting (collectPowerup t ty p) = isShooting p"
  "gameOverLaunches (collectPowerup t ty p) = gameOverLaunches p"
  by (simp_all add: collectPowerup_def forceUpdateAnimation_upd Let_def gameOverLaunches_def)

lemma collectPowerup_anim:
  "currentAnim (collectPowerup t ty p) =
     (if isShooting p then currentAnim p else animKey (currentPowerupState (collectPowerup t ty p)))"
  by (simp add: collectPowerup_def forceUpdateAnimation_upd Let_def)

lemma collectPowerup_consistent:
  "currentPowerupState p = dominantState p \<Longrightarrow>
   currentPowerupState (collectPowerup t ty p) = dominantState (collectPowerup t ty p)"
  by (simp add: collectPowerup_state dominantState_def collectPowerup_flags)

lemma collectPowerup_invariant:
  "powerupInvariant p \<Longrightarrow> powerupInvariant (collectPowerup t ty p)"
  by (simp add: powerupInvariant_def collectPowerup_consistent collectPowerup_anim collectPowerup_frame)

lemma ups_shootAnimOK: "shootAnimOK p \<Longrightarrow> shootAnimOK (updatePowerupStates t p)"
  by (simp add: shootAnimOK_def updatePowerupStates_def block_forms forceUpdateAnimation_upd)

lemma handleShooting_shootAnimOK: "shootAnimOK p \<Longrightarrow> shootAnimOK (fst (handleShooting t sj p))"
  by (simp add: shootAnimOK_def handleShooting_fst shoot_fst)

lemma handleMovement_shootAnimOK: "shootAnimOK p \<Longrightarrow> shootAnimOK (handleMovement env c p)"
  by (simp add: shootAnimOK_def handleMovement_def characterScale_def playJetpackSound_upd Let_def)

lemma updateAnimations_shootAnimOK: "shootAnimOK p \<Longrightarrow> shootAnimOK (updateAnimations p)"
  by (simp add: shootAnimOK_def updateAnimations_upd)

lemma checkFallOffScreen_shootAnimOK: "shootAnimOK p \<Longrightarrow> shootAnimOK (checkFallOffScreen env p)"
  by (simp add: shootAnimOK_def checkFallOffScreen_def die_upd)

lemma Player_update_shootAnimOK: "shootAnimOK p \<Longrightarrow> shootAnimOK (fst (Player_update env c sj p))"
  by (simp add: Player_update_fst checkFallOffScreen_shootAnimOK updateAnimations_shootAnimOK
      handleMovement_shootAnimOK handleShooting_shootAnimOK ups_shootAnimOK)

lemma powerupInvariant_alt: "powerupInvariant p = (currentPowerupState p = dominantState p \<and> shootAnimOK p)"
  by (simp add: powerupInvariant_def shootAnimOK_def)

lemma Player_update_invariant:
  "powerupInvariant p \<Longrightarrow> powerupInvariant (fst (Player_update env c sj p))"
  by (simp add: powerupInvariant_alt Player_update_consistent Player_update_shootAnimOK)

lemma jump_invariant: "powerupInvariant p \<Longrightarrow> powerupInvariant (jump v p)"
  by (simp add: powerupInvariant_def dominantState_def jump_def Let_def)

lemma springJump_invariant: "powerupInvariant p \<Longrightarrow> powerupInvariant (springJump cfg p)"
  by (simp add: powerupInvariant_def dominantState_def springJump_def Let_def)

lemma die_invariant: "powerupInvariant p \<Longrightarrow> powerupInvariant (die p)"
  by (simp add: powerupInvariant_def dominantState_def die_upd)

lemma shootAnimEnd_invariant: "powerupInvariant p \<Longrightarrow> powerupInvariant (shootAnimEnd p)"
  by (simp add: powerupInvariant_def dominantState_def shootAnimEnd_def)

lemma player_apply_invariant: "powerupInvariant p \<Longrightarrow> powerupInvariant (player_apply op p)"
proof (cases op)
  case (OpPhysics x y vx vy)
  assume "powerupInvariant p"
  then show ?thesis using OpPhysics by (simp add: powerupInvariant_def dominantState_def)
qed (simp_all add: Player_update_invariant collectPowerup_invariant jump_invariant
      springJump_invariant die_invariant shootAnimEnd_invariant)

lemma player_run_invariant: "powerupInvariant p \<Longrightarrow> powerupInvariant (player_run ops p)"
  by (induction ops arbitrary: p) (simp_all add: player_apply_invariant)

lemma Player_new_invariant: "powerupInvariant (Player_new cfg w x y)"
  by (simp add: powerupInvariant_def dominantState_def Player_new_def resetOriginAndOffset_def)

subsection \<open>Death is final\<close>

lemma simple_ops_frame:
  "isDead (jump v p) = isDead p"
  "isDead (springJump cfg p) = isDead p"
  "isDead (shootAnimEnd p) = isDead p"
  "gameOverLaunches (jump v p) = gameOverLaunches p"
  "gameOverLaunches (springJump cfg p) = gameOverLaunches p"
  "gameOverLaunches (shootAnimEnd p) = gameOverLaunches p"
  "gameOverLaunches (p\<lparr>pos_x := x, pos_y := y, vel_x := vx, vel_y := vy\<rparr>) = gameOverLaunches p"
  by (simp_all add: jump_def springJump_def shootAnimEnd_def Let_def gameOverLaunches_def)

lemma player_apply_isDead: "isDead p \<Longrightarrow> isDead (player_apply op p)"
  by (cases op) (simp_all add: Player_update_isDead collectPowerup_frame die_frame
      simple_ops_frame)

lemma player_run_isDead: "isDead p \<Longrightarrow> isDead (player_run ops p)"
  by (induction ops arbitrary: p) (simp_all add: player_apply_isDead)

lemma player_apply_launches:
  "gameOverLaunches (player_apply op p) =
     gameOverLaunches p + (if \<not> isDead p \<and> isDead (player_apply op p) then 1 else 0)"
proof (cases op)
  case (OpUpdate env c sj)
  then show ?thesis using Player_update_launches [of env c sj p] by simp
next
  case OpDie
  then show ?thesis by (simp add: die_frame)
qed (simp_all add: collectPowerup_frame simple_ops_frame)

lemma player_run_launches:
  "gameOverLaunches (player_run ops p) =
     gameOverLaunches p + (if \<not> isDead p \<and> isDead (player_run ops p) then 1 else 0)"
proof (induction ops arbitrary: p)
  case Nil
  show ?case by simp
next
  case (Cons op ops)
  show ?case
  proof (cases "isDead (player_apply op p)")
    case True
    then have "isDead (player_run ops (player_apply op p))" by (rule player_run_isDead)
    then show ?thesis
      using Cons.IH [of "player_apply op p"] player_apply_launches [of op p] True by simp
  next
    case False
    then have "\<not> isDead p" using player_apply_isDead [of p op] by blast
    then show ?thesis
      using Cons.IH [of "player_apply op p"] player_apply_launches [of op p] False by simp
  qed
qed

subsection \<open>The power-up state machine, collecting, dying, and the screen boundary\<close>

lemma example_player_fields:
  "hasPropellerHat example_player = False"
  "hasJetpack example_player = False"
  "hasSpringShoes example_player = False"
  "currentPowerupState example_player = Normal"
  "jetpackDuration example_player = 5000"
  "propellerHatDuration example_player = 8000"
  "springShoesDuration example_player = 8000"
  "isShooting example_player = False"
  "isDead example_player = False"
  "hasBody example_player = True"
  "active example_player = True"
  "pos_x example_player = 240"
  "pos_y example_player = 700"
  "moveSpeed example_player = 200"
  "jumpPower example_player = 500"
  "vel_y example_player = 0"
  "gameOverLaunches example_player = 0"
  by (simp_all add: example_player_def Player_new_def example_playerConfig_def
      resetOriginAndOffset_def gameOverLaunches_def)

lemma collectPowerup_durations:
  "jetpackDuration (collectPowerup t ty p) = jetpackDuration p"
  "propellerHatDuration (collectPowerup t ty p) = propellerHatDuration p"
  "springShoesDuration (collectPowerup t ty p) = springShoesDuration p"
  by (simp_all add: collectPowerup_def forceUpdateAnimation_upd Let_def)

text \<open>
  C1 (as amended). After \<open>updatePowerupStates\<close> the current power-up state is the first of
  propeller hat, jetpack and spring shoes whose flag is set after the call, and \<open>normal\<close> when
  none is set; so at most one of the three is the current state, by the priority
  propeller hat, jetpack, spring shoes. The flag of the propeller hat is cleared exactly when
  \<open>now - startTime > duration\<close> holds for it. The flag of the jetpack is cleared exactly
  when \<open>now - startTime > duration\<close> holds for it and the propeller hat is not active after
  the call; the flag of the spring shoes exactly when \<open>now - startTime > duration\<close> holds for
  them and neither the propeller hat nor the jetpack is active after the call. A flag that is
  not cleared keeps its value.
\<close>

theorem updatePowerupStates_dominance:
  "currentPowerupState (updatePowerupStates now p) = dominantState (updatePowerupStates now p) \<and>
   hasPropellerHat (updatePowerupStates now p) =
     (hasPropellerHat p \<and> \<not> expired now (propellerHatStartTime p) (propellerHatDuration p)) \<and>
   hasJetpack (updatePowerupStates now p) =
     (hasJetpack p \<and>
      \<not> (\<not> hasPropellerHat (updatePowerupStates now p) \<and>
         expired now (jetpackStartTime p) (jetpackDuration p))) \<and>
   hasSpringShoes (updatePowerupStates now p) =
     (hasSpringShoes p \<and>
      \<not> (\<not> hasPropellerHat (updatePowerupStates now p) \<and>
         \<not> hasJetpack (updatePowerupStates now p) \<and>
         expired now (springShoesStartTime p) (springShoesDuration p)))"
  using ups_state [of now p] ups_hat [of now p] ups_jet [of now p] ups_shoes [of now p]
  by blast

theorem updatePowerupStates_dominance_witness:
  "currentPowerupState (updatePowerupStates 6000 hat_over_jetpack) = PropellerHat \<and>
   hasPropellerHat (updatePowerupStates 6000 hat_over_jetpack) \<and>
   hasJetpack (updatePowerupStates 6000 hat_over_jetpack) \<and>
   \<not> hasSpringShoes (updatePowerupStates 6000 hat_over_jetpack) \<and>
   currentPowerupState (updatePowerupStates 12001 hat_over_jetpack) = Normal \<and>
   \<not> hasPropellerHat (updatePowerupStates 12001 hat_over_jetpack) \<and>
   \<not> hasJetpack (updatePowerupStates 12001 hat_over_jetpack)"
  using updatePowerupStates_dominance [of 6000 hat_over_jetpack]
    updatePowerupStates_dominance [of 12001 hat_over_jetpack]
  by (simp add: hat_over_jetpack_def collectPowerup_flags collectPowerup_startTimes
      collectPowerup_durations example_player_fields expired_def dominantState_def)

text \<open>
  C1 as stated fails: a player collects the jetpack at time 0 (duration 5000) and the propeller
  hat at time 4000 (duration 8000). At time 6000 the jetpack's \<open>now - startTime\<close> exceeds its
  duration, and its flag is still set after \<open>updatePowerupStates\<close>, because the check of the
  jetpack is skipped while the propeller hat is the new state.
\<close>

theorem jetpack_flag_outlives_duration:
  "hasJetpack (updatePowerupStates 6000 hat_over_jetpack) \<and>
   6000 - jetpackStartTime hat_over_jetpack > jetpackDuration hat_over_jetpack"
  by (simp add: ups_jet ups_hat hat_over_jetpack_def collectPowerup_flags
      collectPowerup_startTimes collectPowerup_durations example_player_fields expired_def)

text \<open>
  C2. Let \<open>p\<close> be any state a player can be in: the result of any run of operations on a
  newly constructed player. For each of the types \<open>propeller_hat\<close>, \<open>jetpack\<close> and
  \<open>spring_shoes\<close>, \<open>collectPowerup\<close> sets the flag of that buff and sets its start time to
  the current time, and when it returns the current power-up state is the dominant state of
  the new set of flags. The animation shown is the one of that state, unless the shooting
  animation is running, which is left to finish.
\<close>

theorem collectPowerup_activates_and_reevaluates:
  assumes "p = player_run ops (Player_new cfg w x y)"
  shows "(ty = ''propeller_hat'' \<longrightarrow>
            hasPropellerHat (collectPowerup now ty p) \<and>
            propellerHatStartTime (collectPowerup now ty p) = now) \<and>
         (ty = ''jetpack'' \<longrightarrow>
            hasJetpack (collectPowerup now ty p) \<and>
            jetpackStartTime (collectPowerup now ty p) = now) \<and>
         (ty = ''spring_shoes'' \<longrightarrow>
            hasSpringShoes (collectPowerup now ty p) \<and>
            springShoesStartTime (collectPowerup now ty p) = now) \<and>
         currentPowerupState (collectPowerup now ty p) = dominantState (collectPowerup now ty p) \<and>
         currentAnim (collectPowerup now ty p) =
           (if isShooting (collectPowerup now ty p) then ShootingAnim
            else animKey (dominantState (collectPowerup now ty p)))"
proof -
  have inv: "powerupInvariant p"
    unfolding assms by (rule player_run_invariant) (rule Player_new_invariant)
  then have inv': "powerupInvariant (collectPowerup now ty p)"
    by (rule collectPowerup_invariant)
  have st: "currentPowerupState (collectPowerup now ty p) = dominantState (collectPowerup now ty p)"
    using inv' by (simp add: powerupInvariant_def)
  have an: "currentAnim (collectPowerup now ty p) =
           (if isShooting (collectPowerup now ty p) then ShootingAnim
            else animKey (dominantState (collectPowerup now ty p)))"
    using inv' st collectPowerup_anim [of now ty p]
    by (simp add: powerupInvariant_def collectPowerup_frame)
  show ?thesis
    using st an by (simp add: collectPowerup_flags collectPowerup_startTimes)
qed

theorem collectPowerup_activates_and_reevaluates_witness:
  "hasSpringShoes (collectPowerup 1000 ''spring_shoes''
      (player_run [OpCollectPowerup 0 ''jetpack''] (Player_new example_playerConfig 488 240 700))) \<and>
   springShoesStartTime (collectPowerup 1000 ''spring_shoes''
      (player_run [OpCollectPowerup 0 ''jetpack''] (Player_new example_playerConfig 488 240 700))) = 1000 \<and>
   currentPowerupState (collectPowerup 1000 ''spring_shoes''
      (player_run [OpCollectPowerup 0 ''jetpack''] (Player_new example_playerConfig 488 240 700))) = Jetpack \<and>
   currentAnim (collectPowerup 1000 ''spring_shoes''
      (player_run [OpCollectPowerup 0 ''jetpack''] (Player_new example_playerConfig 488 240 700))) = JetpackAnim"
  using collectPowerup_activates_and_reevaluates
    [OF refl, of "''spring_shoes''" 1000 "[OpCollectPowerup 0 ''jetpack'']" example_playerConfig 488 240 700]
  by (simp add: dominantState_def collectPowerup_flags collectPowerup_frame
      example_player_fields [unfolded example_player_def])

text \<open>
  C9. The first call of \<open>die\<close> on a live player sets \<open>isDead\<close>, zeroes the velocity and
  launches the game-over scene (after playing the game-over sound); on a dead player \<open>die\<close>
  changes nothing, so \<open>die\<close> is idempotent. No run of operations on a player makes a dead
  player live again, and over any run the game-over scene is launched exactly once if the
  player dies during the run and not at all otherwise.
\<close>

theorem die_one_way_idempotent:
  "(\<not> isDead p \<longrightarrow>
      isDead (die p) \<and> vel_x (die p) = 0 \<and> vel_y (die p) = 0 \<and>
      effects (die p) = effects p @ [PlaySound ''game_over'', LaunchScene ''GameOverScene'']) \<and>
   (isDead p \<longrightarrow> die p = p) \<and>
   die (die p) = die p \<and>
   (isDead p \<longrightarrow> isDead (player_run ops p)) \<and>
   gameOverLaunches (player_run ops p) =
     gameOverLaunches p + (if \<not> isDead p \<and> isDead (player_run ops p) then 1 else 0)"
proof -
  have a: "\<not> isDead p \<longrightarrow>
      isDead (die p) \<and> vel_x (die p) = 0 \<and> vel_y (die p) = 0 \<and>
      effects (die p) = effects p @ [PlaySound ''game_over'', LaunchScene ''GameOverScene'']"
    by (simp add: die_def)
  have b: "isDead p \<longrightarrow> die p = p"
    by (simp add: die_def)
  have c: "die (die p) = die p"
    by (cases "isDead p") (simp_all add: die_def)
  have d: "isDead p \<longrightarrow> isDead (player_run ops p)"
    by (simp add: player_run_isDead)
  show ?thesis
    using a b c d player_run_launches [of ops p] by blast
qed

theorem die_one_way_idempotent_witness:
  "\<not> isDead example_player \<and>
   isDead (die example_player) \<and>
   vel_x (die example_player) = 0 \<and> vel_y (die example_player) = 0 \<and>
   die (die example_player) = die example_player \<and>
   isDead (player_run [OpUpdate example_env left_keys True, OpJump None, OpDie] (die example_player)) \<and>
   gameOverLaunches (player_run [OpDie, OpDie, OpJump None, OpDie] example_player) = 1"
  using die_one_way_idempotent [of example_player "[OpDie, OpDie, OpJump None, OpDie]"]
    die_one_way_idempotent [of "die example_player" "[OpUpdate example_env left_keys True, OpJump None, OpDie]"]
  by (simp add: example_player_fields die_frame simple_ops_frame)

text \<open>
  C10 fails on the code. \<open>handleMovement\<close> computes \<open>halfWidth\<close> from \<open>this.characterScale\<close>,
  which is never assigned: \<open>halfWidth\<close> is NaN, both comparisons of the clamp are false, and
  the clamp never acts. A live player that the physics step has carried to \<open>x = -50\<close> while
  the left key is held is still at \<open>x = -50\<close> after \<open>Player.update\<close>, with its horizontal
  velocity \<open>-moveSpeed\<close> and not zero.
\<close>

theorem player_leaves_screen_unclamped:
  "\<not> isDead stray_player \<and> hasBody stray_player \<and> active stray_player \<and>
   pos_x stray_player = - 50 \<and>
   pos_x (fst (Player_update example_env left_keys False stray_player)) = - 50 \<and>
   vel_x (fst (Player_update example_env left_keys False stray_player)) = - 200"
  by (simp add: stray_player_def example_player_def Player_new_def example_playerConfig_def
      resetOriginAndOffset_def Player_update_def updatePowerupStates_def block_forms
      handleShooting_def handleMovement_def characterScale_def updateAnimations_def
      checkFallOffScreen_def example_env_def left_keys_def Let_def)

theorem player_leaves_screen_unclamped_witness:
  "\<not> isDead stray_player \<and>
   pos_x (fst (Player_update example_env left_keys False stray_player)) < 0 \<and>
   vel_x (fst (Player_update example_env left_keys False stray_player)) \<noteq> 0"
  using player_leaves_screen_unclamped by simp

section \<open>Properties of the scene\<close>

subsection \<open>The placement loop\<close>

lemma overlapsExisting_iff:
  "overlapsExisting entries x newY \<longleftrightarrow>
     (\<exists>p \<in> set entries. ent_active p \<and> Distance_Between x newY (ent_x p) (ent_y p) < 60)"
  by (auto simp add: overlapsExisting_def list_ex_iff)

lemma Distance_Between_less_60:
  "Distance_Between x1 y1 x2 y2 < 60 \<longleftrightarrow>
     (x1 - x2) * (x1 - x2) + (y1 - y2) * (y1 - y2) < 3600"
proof -
  have "sqrt ((60::real)\<^sup>2) = 60" by simp
  then have s: "sqrt 3600 = 60" by simp
  have "Distance_Between x1 y1 x2 y2 < 60 \<longleftrightarrow>
        sqrt ((x1 - x2) * (x1 - x2) + (y1 - y2) * (y1 - y2)) < sqrt 3600"
    by (simp only: Distance_Between_def s)
  then show ?thesis by (simp only: real_sqrt_less_iff)
qed

lemma Distance_Between_ge_60:
  "60 \<le> Distance_Between x1 y1 x2 y2 \<longleftrightarrow> \<not> Distance_Between x1 y1 x2 y2 < 60"
  by auto

lemma placementLoop_stop:
  "validPosition s \<or> \<not> attempts s < 10 \<Longrightarrow> placementLoop spacing screenW entries rnd s = s"
  by (subst placementLoop.simps) auto

lemma placementLoop_step:
  "\<not> validPosition s \<Longrightarrow> attempts s < 10 \<Longrightarrow>
   placementLoop spacing screenW entries rnd s =
     placementLoop spacing screenW entries rnd
       \<lparr> validPosition = \<not> overlapsExisting entries (Between 80 (screenW - 80) (rnd (attempts s))) (cursorY s - spacing),
         attempts = attempts s + 1,
         cand_x = Some (Between 80 (screenW - 80) (rnd (attempts s))), cand_newY = Some (cursorY s - spacing),
         cursorY = cursorY s - spacing \<rparr>"
  by (subst placementLoop.simps) (simp add: Let_def)

lemma placementLoop_all_rejected:
  "\<not> validPosition s \<Longrightarrow> attempts s \<le> 10 \<Longrightarrow>
   (\<forall>j. attempts s \<le> j \<and> j < 10 \<longrightarrow>
        overlapsExisting entries (Between 80 (screenW - 80) (rnd j))
          (cursorY s - (real j - real (attempts s) + 1) * spacing)) \<Longrightarrow>
   \<not> validPosition (placementLoop spacing screenW entries rnd s) \<and>
   cursorY (placementLoop spacing screenW entries rnd s) =
     cursorY s - (10 - real (attempts s)) * spacing"
proof (induction "10 - attempts s" arbitrary: s)
  case 0
  then have "attempts s = 10" by simp
  then show ?case using 0 by (simp add: placementLoop_stop)
next
  case (Suc n)
  then have lt: "attempts s < 10" by simp
  let ?s' = "\<lparr> validPosition = \<not> overlapsExisting entries (Between 80 (screenW - 80) (rnd (attempts s))) (cursorY s - spacing),
         attempts = attempts s + 1,
         cand_x = Some (Between 80 (screenW - 80) (rnd (attempts s))), cand_newY = Some (cursorY s - spacing),
         cursorY = cursorY s - spacing \<rparr>"
  have ov: "overlapsExisting entries (Between 80 (screenW - 80) (rnd (attempts s))) (cursorY s - spacing)"
    using Suc.prems(3) lt by force
  have step: "placementLoop spacing screenW entries rnd s = placementLoop spacing screenW entries rnd ?s'"
    using Suc.prems(1) lt by (rule placementLoop_step)
  have a: "n = 10 - attempts ?s'" using Suc.hyps(2) by simp
  have b: "\<not> validPosition ?s'" using ov by simp
  have c: "attempts ?s' \<le> 10" using lt by simp
  have d: "\<forall>j. attempts ?s' \<le> j \<and> j < 10 \<longrightarrow>
        overlapsExisting entries (Between 80 (screenW - 80) (rnd j))
          (cursorY ?s' - (real j - real (attempts ?s') + 1) * spacing)"
  proof (intro allI impI)
    fix j assume j: "attempts ?s' \<le> j \<and> j < 10"
    then have h: "overlapsExisting entries (Between 80 (screenW - 80) (rnd j))
          (cursorY s - (real j - real (attempts s) + 1) * spacing)"
      using Suc.prems(3) by simp
    have e: "cursorY ?s' - (real j - real (attempts ?s') + 1) * spacing =
        cursorY s - (real j - real (attempts s) + 1) * spacing"
      by (simp add: algebra_simps)
    show "overlapsExisting entries (Between 80 (screenW - 80) (rnd j))
          (cursorY ?s' - (real j - real (attempts ?s') + 1) * spacing)"
      by (subst e) (rule h)
  qed
  have "\<not> validPosition (placementLoop spacing screenW entries rnd ?s') \<and>
   cursorY (placementLoop spacing screenW entries rnd ?s') =
     cursorY ?s' - (10 - real (attempts ?s')) * spacing"
    using Suc.hyps(1) [OF a b c d] .
  then show ?case unfolding step by (simp add: algebra_simps)
qed

lemma placementLoop_accepted:
  "\<not> validPosition s \<Longrightarrow> validPosition (placementLoop spacing screenW entries rnd s) \<Longrightarrow>
   \<exists>k. attempts s \<le> k \<and> k < 10 \<and>
       cand_x (placementLoop spacing screenW entries rnd s) = Some (Between 80 (screenW - 80) (rnd k)) \<and>
       cand_newY (placementLoop spacing screenW entries rnd s) =
          Some (cursorY s - (real k - real (attempts s) + 1) * spacing) \<and>
       cursorY (placementLoop spacing screenW entries rnd s) =
          cursorY s - (real k - real (attempts s) + 1) * spacing \<and>
       \<not> overlapsExisting entries (Between 80 (screenW - 80) (rnd k)) (cursorY s - (real k - real (attempts s) + 1) * spacing) \<and>
       (\<forall>j. attempts s \<le> j \<and> j < k \<longrightarrow>
          overlapsExisting entries (Between 80 (screenW - 80) (rnd j)) (cursorY s - (real j - real (attempts s) + 1) * spacing))"
proof (induction "10 - attempts s" arbitrary: s)
  case 0
  then have "placementLoop spacing screenW entries rnd s = s" by (simp add: placementLoop_stop)
  then show ?case using 0 by simp
next
  case (Suc n)
  then have lt: "attempts s < 10" by simp
  let ?ov = "overlapsExisting entries (Between 80 (screenW - 80) (rnd (attempts s))) (cursorY s - spacing)"
  let ?s' = "\<lparr> validPosition = \<not> ?ov,
         attempts = attempts s + 1,
         cand_x = Some (Between 80 (screenW - 80) (rnd (attempts s))), cand_newY = Some (cursorY s - spacing),
         cursorY = cursorY s - spacing \<rparr>"
  have step: "placementLoop spacing screenW entries rnd s = placementLoop spacing screenW entries rnd ?s'"
    using Suc.prems(1) lt by (rule placementLoop_step)
  show ?case
  proof (cases ?ov)
    case False
    then have "placementLoop spacing screenW entries rnd ?s' = ?s'"
      by (simp add: placementLoop_stop)
    then have r: "placementLoop spacing screenW entries rnd s = ?s'" using step by simp
    show ?thesis
      unfolding r using False lt
      by (intro exI [of _ "attempts s"]) auto
  next
    case True
    have a: "n = 10 - attempts ?s'" using Suc.hyps(2) by simp
    have b: "\<not> validPosition ?s'" using True by simp
    have c: "validPosition (placementLoop spacing screenW entries rnd ?s')"
      using Suc.prems(2) step by simp
    obtain k where k: "attempts ?s' \<le> k" "k < 10"
       "cand_x (placementLoop spacing screenW entries rnd ?s') = Some (Between 80 (screenW - 80) (rnd k))"
       "cand_newY (placementLoop spacing screenW entries rnd ?s') =
          Some (cursorY ?s' - (real k - real (attempts ?s') + 1) * spacing)"
       "cursorY (placementLoop spacing screenW entries rnd ?s') =
          cursorY ?s' - (real k - real (attempts ?s') + 1) * spacing"
       "\<not> overlapsExisting entries (Between 80 (screenW - 80) (rnd k)) (cursorY ?s' - (real k - real (attempts ?s') + 1) * spacing)"
       "\<forall>j. attempts ?s' \<le> j \<and> j < k \<longrightarrow>
          overlapsExisting entries (Between 80 (screenW - 80) (rnd j)) (cursorY ?s' - (real j - real (attempts ?s') + 1) * spacing)"
      using Suc.hyps(1) [OF a b c] by blast
    have eq: "\<And>j. cursorY ?s' - (real j - real (attempts ?s') + 1) * spacing =
        cursorY s - (real j - real (attempts s) + 1) * spacing"
      by (simp add: algebra_simps)
    have rej: "\<forall>j. attempts s \<le> j \<and> j < k \<longrightarrow>
          overlapsExisting entries (Between 80 (screenW - 80) (rnd j)) (cursorY s - (real j - real (attempts s) + 1) * spacing)"
    proof (intro allI impI)
      fix j assume j: "attempts s \<le> j \<and> j < k"
      show "overlapsExisting entries (Between 80 (screenW - 80) (rnd j)) (cursorY s - (real j - real (attempts s) + 1) * spacing)"
      proof (cases "j = attempts s")
        case True
        then show ?thesis using \<open>?ov\<close> by simp
      next
        case False
        then have "attempts ?s' \<le> j \<and> j < k" using j by simp
        then have "overlapsExisting entries (Between 80 (screenW - 80) (rnd j))
            (cursorY ?s' - (real j - real (attempts ?s') + 1) * spacing)"
          using k(7) by blast
        then show ?thesis by (simp only: eq)
      qed
    qed
    have k1: "attempts s \<le> k" using k(1) by simp
    show ?thesis
      unfolding step using k1 k(2) k(3) k(4) [unfolded eq] k(5) [unfolded eq] k(6) [unfolded eq] rej
      by (intro exI [of _ k]) blast
  qed
qed

lemma placementLoop_not_valid:
  "\<not> validPosition s \<Longrightarrow> attempts s \<le> 10 \<Longrightarrow>
   \<not> validPosition (placementLoop spacing screenW entries rnd s) \<Longrightarrow>
   (\<forall>j. attempts s \<le> j \<and> j < 10 \<longrightarrow>
        overlapsExisting entries (Between 80 (screenW - 80) (rnd j))
          (cursorY s - (real j - real (attempts s) + 1) * spacing)) \<and>
   cursorY (placementLoop spacing screenW entries rnd s) =
     cursorY s - (10 - real (attempts s)) * spacing"
proof (induction "10 - attempts s" arbitrary: s)
  case 0
  then have "attempts s = 10" by simp
  then show ?case using 0 by (auto simp add: placementLoop_stop)
next
  case (Suc n)
  then have lt: "attempts s < 10" by simp
  let ?ov = "overlapsExisting entries (Between 80 (screenW - 80) (rnd (attempts s))) (cursorY s - spacing)"
  let ?s' = "\<lparr> validPosition = \<not> ?ov,
         attempts = attempts s + 1,
         cand_x = Some (Between 80 (screenW - 80) (rnd (attempts s))), cand_newY = Some (cursorY s - spacing),
         cursorY = cursorY s - spacing \<rparr>"
  have step: "placementLoop spacing screenW entries rnd s = placementLoop spacing screenW entries rnd ?s'"
    using Suc.prems(1) lt by (rule placementLoop_step)
  have ov: ?ov
  proof (rule ccontr)
    assume "\<not> ?ov"
    then have "placementLoop spacing screenW entries rnd ?s' = ?s'" by (simp add: placementLoop_stop)
    then have "validPosition (placementLoop spacing screenW entries rnd s)"
      using step \<open>\<not> ?ov\<close> by simp
    then show False using Suc.prems(3) by simp
  qed
  have a: "n = 10 - attempts ?s'" using Suc.hyps(2) by simp
  have b: "\<not> validPosition ?s'" using ov by simp
  have c: "attempts ?s' \<le> 10" using lt by simp
  have d: "\<not> validPosition (placementLoop spacing screenW entries rnd ?s')"
    using Suc.prems(3) step by simp
  have eq: "\<And>j. cursorY ?s' - (real j - real (attempts ?s') + 1) * spacing =
        cursorY s - (real j - real (attempts s) + 1) * spacing"
    by (simp add: algebra_simps)
  have IH: "(\<forall>j. attempts ?s' \<le> j \<and> j < 10 \<longrightarrow>
        overlapsExisting entries (Between 80 (screenW - 80) (rnd j))
          (cursorY s - (real j - real (attempts s) + 1) * spacing)) \<and>
     cursorY (placementLoop spacing screenW entries rnd ?s') =
       cursorY ?s' - (10 - real (attempts ?s')) * spacing"
    using Suc.hyps(1) [OF a b c d] unfolding eq .
  have all: "\<forall>j. attempts s \<le> j \<and> j < 10 \<longrightarrow>
        overlapsExisting entries (Between 80 (screenW - 80) (rnd j))
          (cursorY s - (real j - real (attempts s) + 1) * spacing)"
  proof (intro allI impI)
    fix j assume j: "attempts s \<le> j \<and> j < 10"
    show "overlapsExisting entries (Between 80 (screenW - 80) (rnd j)) (cursorY s - (real j - real (attempts s) + 1) * spacing)"
    proof (cases "j = attempts s")
      case True
      then show ?thesis using ov by simp
    next
      case False
      then have "attempts ?s' \<le> j \<and> j < 10" using j by simp
      then show ?thesis using IH by blast
    qed
  qed
  have cur: "cursorY (placementLoop spacing screenW entries rnd s) =
     cursorY s - (10 - real (attempts s)) * spacing"
    unfolding step using IH by (simp add: algebra_simps)
  show ?case using all cur by blast
qed

subsection \<open>generateNewPlatforms\<close>

lemma generateNewPlatforms_untriggered:
  "\<not> lastPlatformY g > cam_scrollY env - 200 \<Longrightarrow> generateNewPlatforms cfg env d g = g"
  by (simp add: generateNewPlatforms_def Let_def)

lemma generateNewPlatforms_rejected:
  "lastPlatformY g > cam_scrollY env - 200 \<Longrightarrow>
   \<not> validPosition (placementLoop (platformSpacing g) (screenWidth cfg) (platforms g) (rand_platformX d)
        (initialPlacement g)) \<Longrightarrow>
   generateNewPlatforms cfg env d g =
     g\<lparr>lastPlatformY := cursorY (placementLoop (platformSpacing g) (screenWidth cfg) (platforms g) (rand_platformX d)
        (initialPlacement g))\<rparr>"
  by (simp add: generateNewPlatforms_def Let_def initialPlacement_def)

lemma generateNewPlatforms_accepted:
  "lastPlatformY g > cam_scrollY env - 200 \<Longrightarrow>
   validPosition (placementLoop (platformSpacing g) (screenWidth cfg) (platforms g) (rand_platformX d)
        (initialPlacement g)) \<Longrightarrow>
   cand_x (placementLoop (platformSpacing g) (screenWidth cfg) (platforms g) (rand_platformX d)
        (initialPlacement g)) = Some x \<Longrightarrow>
   cand_newY (placementLoop (platformSpacing g) (screenWidth cfg) (platforms g) (rand_platformX d)
        (initialPlacement g)) = Some y \<Longrightarrow>
   generateNewPlatforms cfg env d g =
     spawnOnPlatform cfg d x y
       (g\<lparr>lastPlatformY := cursorY (placementLoop (platformSpacing g) (screenWidth cfg)
          (platforms g) (rand_platformX d) (initialPlacement g))\<rparr>)"
  by (simp add: generateNewPlatforms_def Let_def initialPlacement_def)

lemma spawnOnPlatform_fields:
  "platforms (spawnOnPlatform cfg d x y g) = platforms g @ [new_Platform x y (draw_platformType d)]"
  "lastPlatformY (spawnOnPlatform cfg d x y g) = lastPlatformY g"
  "score (spawnOnPlatform cfg d x y g) = score g"
  "highestY (spawnOnPlatform cfg d x y g) = highestY g"
  "scene_player (spawnOnPlatform cfg d x y g) = scene_player g"
  by (simp_all add: spawnOnPlatform_def Let_def split: option.splits)

lemma generateNewPlatforms_cases:
  obtains
    (idle) "\<not> lastPlatformY g > cam_scrollY env - 200" "generateNewPlatforms cfg env d g = g"
  | (rejected) "lastPlatformY g > cam_scrollY env - 200"
      "\<forall>j<10. overlapsExisting (platforms g) (candidateX cfg d j)
          (lastPlatformY g - (real j + 1) * platformSpacing g)"
      "generateNewPlatforms cfg env d g = g\<lparr>lastPlatformY := lastPlatformY g - 10 * platformSpacing g\<rparr>"
  | (accepted) k where "lastPlatformY g > cam_scrollY env - 200" "k < 10"
      "\<not> overlapsExisting (platforms g) (candidateX cfg d k)
          (lastPlatformY g - (real k + 1) * platformSpacing g)"
      "\<forall>j<k. overlapsExisting (platforms g) (candidateX cfg d j)
          (lastPlatformY g - (real j + 1) * platformSpacing g)"
      "generateNewPlatforms cfg env d g =
         spawnOnPlatform cfg d (candidateX cfg d k) (lastPlatformY g - (real k + 1) * platformSpacing g)
           (g\<lparr>lastPlatformY := lastPlatformY g - (real k + 1) * platformSpacing g\<rparr>)"
proof (cases "lastPlatformY g > cam_scrollY env - 200")
  case False
  then show ?thesis using idle generateNewPlatforms_untriggered by blast
next
  case trig: True
  let ?r = "placementLoop (platformSpacing g) (screenWidth cfg) (platforms g) (rand_platformX d) (initialPlacement g)"
  have i0: "\<not> validPosition (initialPlacement g)" "attempts (initialPlacement g) = 0"
    "cursorY (initialPlacement g) = lastPlatformY g"
    by (simp_all add: initialPlacement_def)
  show ?thesis
  proof (cases "validPosition ?r")
    case True
    from placementLoop_accepted [OF i0(1) True]
    obtain k where k: "k < 10" "cand_x ?r = Some (candidateX cfg d k)"
      "cand_newY ?r = Some (lastPlatformY g - (real k + 1) * platformSpacing g)"
      "cursorY ?r = lastPlatformY g - (real k + 1) * platformSpacing g"
      "\<not> overlapsExisting (platforms g) (candidateX cfg d k)
          (lastPlatformY g - (real k + 1) * platformSpacing g)"
      "\<forall>j. j < k \<longrightarrow> overlapsExisting (platforms g) (candidateX cfg d j)
          (lastPlatformY g - (real j + 1) * platformSpacing g)"
      unfolding i0 candidateX_def by auto
    have "generateNewPlatforms cfg env d g =
         spawnOnPlatform cfg d (candidateX cfg d k) (lastPlatformY g - (real k + 1) * platformSpacing g)
           (g\<lparr>lastPlatformY := lastPlatformY g - (real k + 1) * platformSpacing g\<rparr>)"
      using generateNewPlatforms_accepted [OF trig True k(2) k(3)] k(4) by simp
    then show ?thesis using accepted [of k] trig k by blast
  next
    case False
    from placementLoop_not_valid [OF i0(1) _ False]
    have rej: "\<forall>j<10. overlapsExisting (platforms g) (candidateX cfg d j)
          (lastPlatformY g - (real j + 1) * platformSpacing g)"
      and cur: "cursorY ?r = lastPlatformY g - 10 * platformSpacing g"
      unfolding i0 candidateX_def by auto
    have "generateNewPlatforms cfg env d g = g\<lparr>lastPlatformY := lastPlatformY g - 10 * platformSpacing g\<rparr>"
      using generateNewPlatforms_rejected [OF trig False] cur by simp
    then show ?thesis using rejected trig rej by blast
  qed
qed

lemma keepsDistance_iff: "keepsDistance entries x y \<longleftrightarrow> \<not> overlapsExisting entries x y"
  by (auto simp add: keepsDistance_def overlapsExisting_iff not_less)

lemma Between_range:
  assumes "0 \<le> r" and "r < 1" and "lo \<in> \<int>" and "hi \<in> \<int>" and "lo \<le> hi"
  shows "lo \<le> Between lo hi r" and "Between lo hi r \<le> hi"
proof -
  obtain m where m: "lo = of_int m" using assms(3) by (auto elim: Ints_cases)
  obtain n where n: "hi = of_int n" using assms(4) by (auto elim: Ints_cases)
  have pos: "0 < hi - lo + 1" using assms(5) by simp
  have "0 \<le> r * (hi - lo + 1)" using assms(1) pos by simp
  then have "of_int m \<le> r * (hi - lo + 1) + lo" using m by simp
  then have "m \<le> \<lfloor>r * (hi - lo + 1) + lo\<rfloor>" by (simp add: le_floor_iff)
  then show "lo \<le> Between lo hi r" unfolding Between_def m by simp
  have "r * (hi - lo + 1) < 1 * (hi - lo + 1)" using assms(2) pos by (intro mult_strict_right_mono)
  then have "r * (hi - lo + 1) + lo < of_int (n + 1)" using n by simp
  then have "\<lfloor>r * (hi - lo + 1) + lo\<rfloor> < n + 1" by (simp only: floor_less_iff)
  then have "\<lfloor>r * (hi - lo + 1) + lo\<rfloor> \<le> n" by simp
  then show "Between lo hi r \<le> hi" unfolding Between_def n by simp
qed

lemma candidateX_range:
  assumes "0 \<le> rand_platformX d k" and "rand_platformX d k < 1"
    and "screenWidth cfg \<in> \<int>" and "160 \<le> screenWidth cfg"
  shows "80 \<le> candidateX cfg d k" and "candidateX cfg d k \<le> screenWidth cfg - 80"
proof -
  have a: "(80::real) \<in> \<int>" by simp
  have b: "screenWidth cfg - 80 \<in> \<int>" using assms(3) by (intro Ints_diff) simp_all
  have c: "80 \<le> screenWidth cfg - 80" using assms(4) by simp
  show "80 \<le> candidateX cfg d k" and "candidateX cfg d k \<le> screenWidth cfg - 80"
    unfolding candidateX_def using Between_range [OF assms(1) assms(2) a b c] by simp_all
qed

lemma new_Platform_eq:
  "new_Platform x y t = new_Platform x' y' t' \<longleftrightarrow> x = x' \<and> y = y' \<and> t = t'"
  by (auto simp add: new_Platform_def)

text \<open>
  C3 (as amended). In every call of \<open>generateNewPlatforms\<close> a candidate \<open>(x, y)\<close> is accepted
  only if its distance to every currently active platform is at least 60 (a candidate at a
  distance of exactly 60 is accepted): when the call creates a platform, the platform stands
  at the candidate of some attempt \<open>k < 10\<close>, the cursor is at its \<open>y\<close>, its distance to every
  active platform is at least 60, and its \<open>x\<close> lies in \<open>[80, screenWidth - 80]\<close>. The converse
  holds as well, attempt by attempt: in a triggered call in which no earlier candidate keeps
  the distance, the candidate of attempt \<open>k\<close> becomes the new platform if and only if it
  keeps the distance; so an attempt is rejected exactly when an active platform is closer
  than 60, and nothing is created when all ten are. The bound on \<open>x\<close> needs that
  \<open>Math.random()\<close> yields values in \<open>[0, 1)\<close> and that the screen width is a whole number of
  at least 160.
\<close>

theorem accepted_candidate_keeps_distance:
  assumes "\<forall>j<10. 0 \<le> rand_platformX d j \<and> rand_platformX d j < 1"
    and "screenWidth cfg \<in> \<int>" and "160 \<le> screenWidth cfg"
  shows "(platforms (generateNewPlatforms cfg env d g) \<noteq> platforms g \<longrightarrow>
          (\<exists>k<10.
             platforms (generateNewPlatforms cfg env d g) =
               platforms g @ [new_Platform (candidateX cfg d k) (candidateY g k)
                                (draw_platformType d)] \<and>
             lastPlatformY (generateNewPlatforms cfg env d g) = candidateY g k \<and>
             keepsDistance (platforms g) (candidateX cfg d k) (candidateY g k) \<and>
             80 \<le> candidateX cfg d k \<and> candidateX cfg d k \<le> screenWidth cfg - 80)) \<and>
         (\<forall>k<10.
            lastPlatformY g > cam_scrollY env - 200 \<and>
            (\<forall>j<k. \<not> keepsDistance (platforms g) (candidateX cfg d j) (candidateY g j)) \<longrightarrow>
            (keepsDistance (platforms g) (candidateX cfg d k) (candidateY g k) \<longleftrightarrow>
             platforms (generateNewPlatforms cfg env d g) =
               platforms g @ [new_Platform (candidateX cfg d k) (candidateY g k)
                                (draw_platformType d)]))"
proof (cases rule: generateNewPlatforms_cases [where g = g and env = env and cfg = cfg and d = d])
  case idle
  then show ?thesis by simp
next
  case rejected
  have "\<forall>k<10. \<not> keepsDistance (platforms g) (candidateX cfg d k) (candidateY g k)"
    using rejected(2) by (simp add: keepsDistance_iff candidateY_def)
  then show ?thesis using rejected(3) by simp
next
  case (accepted k)
  have free: "keepsDistance (platforms g) (candidateX cfg d k) (candidateY g k)"
    using accepted(3) by (simp add: keepsDistance_iff candidateY_def)
  have near: "\<forall>j<k. \<not> keepsDistance (platforms g) (candidateX cfg d j) (candidateY g j)"
    using accepted(4) by (simp add: keepsDistance_iff candidateY_def)
  have pl: "platforms (generateNewPlatforms cfg env d g) =
       platforms g @ [new_Platform (candidateX cfg d k) (candidateY g k) (draw_platformType d)]"
    and cu: "lastPlatformY (generateNewPlatforms cfg env d g) = candidateY g k"
    unfolding accepted(5) by (simp_all add: spawnOnPlatform_fields candidateY_def)
  have rg: "80 \<le> candidateX cfg d k" "candidateX cfg d k \<le> screenWidth cfg - 80"
    using candidateX_range [of d k cfg] assms accepted(2) by simp_all
  have first: "\<exists>k<10.
             platforms (generateNewPlatforms cfg env d g) =
               platforms g @ [new_Platform (candidateX cfg d k) (candidateY g k)
                                (draw_platformType d)] \<and>
             lastPlatformY (generateNewPlatforms cfg env d g) = candidateY g k \<and>
             keepsDistance (platforms g) (candidateX cfg d k) (candidateY g k) \<and>
             80 \<le> candidateX cfg d k \<and> candidateX cfg d k \<le> screenWidth cfg - 80"
    using accepted(2) pl cu free rg by blast
  have second: "keepsDistance (platforms g) (candidateX cfg d i) (candidateY g i) \<longleftrightarrow>
             platforms (generateNewPlatforms cfg env d g) =
               platforms g @ [new_Platform (candidateX cfg d i) (candidateY g i)
                                (draw_platformType d)]"
    if i: "i < 10"
      and before: "\<forall>j<i. \<not> keepsDistance (platforms g) (candidateX cfg d j) (candidateY g j)"
    for i
  proof -
    have ki: "k \<ge> i" using before free by (meson not_le_imp_less)
    show ?thesis
    proof (cases "k = i")
      case True
      then show ?thesis using free pl by simp
    next
      case False
      then have "i < k" using ki by simp
      then have nk: "\<not> keepsDistance (platforms g) (candidateX cfg d i) (candidateY g i)"
        using near by simp
      have "platforms (generateNewPlatforms cfg env d g) \<noteq>
               platforms g @ [new_Platform (candidateX cfg d i) (candidateY g i)
                                (draw_platformType d)]"
      proof
        assume "platforms (generateNewPlatforms cfg env d g) =
               platforms g @ [new_Platform (candidateX cfg d i) (candidateY g i)
                                (draw_platformType d)]"
        then have "candidateX cfg d k = candidateX cfg d i \<and> candidateY g k = candidateY g i"
          unfolding pl by (simp add: new_Platform_eq)
        then show False using free nk by simp
      qed
      then show ?thesis using nk by simp
    qed
  qed
  show ?thesis using first second by blast
qed

lemma touching_candidate:
  "candidateX example_gameConfig touching_draws k = 160"
  "candidateY touching_scene 0 = 40"
  by (simp_all add: candidateX_def candidateY_def Between_def touching_draws_def
      example_gameConfig_def touching_scene_def)

lemma touching_scene_generate:
  "generateNewPlatforms example_gameConfig example_env touching_draws touching_scene =
     touching_scene\<lparr>lastPlatformY := 40,
        platforms := [new_Platform 100 40 ''normal'', new_Platform 160 40 ''normal'']\<rparr>"
proof -
  have t: "lastPlatformY touching_scene > cam_scrollY example_env - 200"
    by (simp add: touching_scene_def example_env_def)
  have no: "\<not> overlapsExisting (platforms touching_scene) 160 40"
    by (simp add: overlapsExisting_def touching_scene_def new_Platform_def Distance_Between_less_60)
  have x0: "Between 80 (screenWidth example_gameConfig - 80) (rand_platformX touching_draws 0) = 160"
    using touching_candidate(1) [of 0] by (simp add: candidateX_def)
  have ps: "platformSpacing touching_scene = 60" "lastPlatformY touching_scene = 100"
    by (simp_all add: touching_scene_def)
  have i0: "\<not> validPosition (initialPlacement touching_scene)"
    "attempts (initialPlacement touching_scene) < 10"
    by (simp_all add: initialPlacement_def)
  have s1: "placementLoop (platformSpacing touching_scene) (screenWidth example_gameConfig)
          (platforms touching_scene) (rand_platformX touching_draws)
          (initialPlacement touching_scene) =
        \<lparr> validPosition = True, attempts = 1, cand_x = Some 160, cand_newY = Some 40,
          cursorY = 40 \<rparr>"
    using no
    by (subst placementLoop_step [OF i0])
       (simp add: initialPlacement_def x0 ps placementLoop_stop)
  have g1: "generateNewPlatforms example_gameConfig example_env touching_draws touching_scene =
      spawnOnPlatform example_gameConfig touching_draws 160 40 (touching_scene\<lparr>lastPlatformY := 40\<rparr>)"
    using generateNewPlatforms_accepted [OF t, where d = touching_draws
        and cfg = example_gameConfig and x = 160 and y = 40]
    by (simp add: s1)
  show ?thesis
    unfolding g1
    by (simp add: spawnOnPlatform_def touching_draws_def example_gameConfig_def Let_def
        touching_scene_def Between_def)
qed

theorem accepted_candidate_keeps_distance_witness:
  "0 \<le> rand_platformX touching_draws 0 \<and> rand_platformX touching_draws 0 < 1 \<and>
   screenWidth example_gameConfig \<in> \<int> \<and> 160 \<le> screenWidth example_gameConfig \<and>
   lastPlatformY touching_scene > cam_scrollY example_env - 200 \<and>
   candidateX example_gameConfig touching_draws 0 = 160 \<and>
   candidateY touching_scene 0 = 40 \<and>
   platforms (generateNewPlatforms example_gameConfig example_env touching_draws touching_scene) =
     platforms touching_scene @ [new_Platform 160 40 ''normal''] \<and>
   60 \<le> Distance_Between 160 40 100 40"
proof -
  have r: "\<forall>j<10. 0 \<le> rand_platformX touching_draws j \<and> rand_platformX touching_draws j < 1"
    by (simp add: touching_draws_def)
  have w: "screenWidth example_gameConfig \<in> \<int>" "160 \<le> screenWidth example_gameConfig"
    by (simp_all add: example_gameConfig_def)
  have t: "lastPlatformY touching_scene > cam_scrollY example_env - 200"
    by (simp add: touching_scene_def example_env_def)
  have pl: "platforms (generateNewPlatforms example_gameConfig example_env touching_draws touching_scene) =
     platforms touching_scene @ [new_Platform 160 40 ''normal'']"
    by (simp add: touching_scene_generate) (simp add: touching_scene_def)
  have ty: "draw_platformType touching_draws = ''normal''" by (simp add: touching_draws_def)
  note th = accepted_candidate_keeps_distance [OF r w, where env = example_env
      and g = touching_scene]
  have "keepsDistance (platforms touching_scene)
          (candidateX example_gameConfig touching_draws 0) (candidateY touching_scene 0) \<longleftrightarrow>
        platforms (generateNewPlatforms example_gameConfig example_env touching_draws touching_scene) =
          platforms touching_scene @
            [new_Platform (candidateX example_gameConfig touching_draws 0)
               (candidateY touching_scene 0) (draw_platformType touching_draws)]"
    using th t by simp
  then have k: "keepsDistance (platforms touching_scene) 160 40"
    using pl by (simp add: touching_candidate ty)
  then have "60 \<le> Distance_Between 160 40 100 40"
    by (simp add: keepsDistance_def touching_scene_def new_Platform_def)
  then show ?thesis using r w t pl touching_candidate by simp
qed

text \<open>
  C3 as stated fails: with an active platform at \<open>(100, 40)\<close>, the cursor at 100, a spacing
  of 60 and the draw 160, the candidate \<open>(160, 40)\<close> is accepted although its distance to the
  active platform is exactly 60 and so does not exceed 60.
\<close>

theorem accepted_at_distance_exactly_60:
  "platforms (generateNewPlatforms example_gameConfig example_env touching_draws touching_scene) =
     [new_Platform 100 40 ''normal'', new_Platform 160 40 ''normal''] \<and>
   platforms touching_scene = [new_Platform 100 40 ''normal''] \<and>
   ent_active (new_Platform 100 40 ''normal'') \<and>
   \<not> Distance_Between 160 40 100 40 > 60"
proof -
  have "sqrt ((60::real)\<^sup>2) = 60" by simp
  then have "Distance_Between 160 40 100 40 = 60" by (simp add: Distance_Between_def)
  then show ?thesis
    by (simp add: touching_scene_generate new_Platform_def) (simp add: touching_scene_def new_Platform_def)
qed

lemma generateNewPlatforms_all_rejected:
  assumes trig: "lastPlatformY g > cam_scrollY env - 200"
    and rej: "\<forall>j<10. overlapsExisting (platforms g) (candidateX cfg d j)
          (lastPlatformY g - (real j + 1) * platformSpacing g)"
  shows "generateNewPlatforms cfg env d g = g\<lparr>lastPlatformY := lastPlatformY g - 10 * platformSpacing g\<rparr>"
proof -
  let ?r = "placementLoop (platformSpacing g) (screenWidth cfg) (platforms g) (rand_platformX d) (initialPlacement g)"
  have i0: "\<not> validPosition (initialPlacement g)" "attempts (initialPlacement g) = 0"
    "cursorY (initialPlacement g) = lastPlatformY g"
    by (simp_all add: initialPlacement_def)
  have "\<not> validPosition ?r \<and> cursorY ?r = cursorY (initialPlacement g) -
      (10 - real (attempts (initialPlacement g))) * platformSpacing g"
    by (rule placementLoop_all_rejected) (use rej in \<open>simp_all add: i0 candidateX_def\<close>)
  then have nv: "\<not> validPosition ?r" and cu: "cursorY ?r = lastPlatformY g - 10 * platformSpacing g"
    by (simp_all add: i0)
  show ?thesis
    using generateNewPlatforms_rejected [OF trig nv] cu by simp
qed

lemma generateNewPlatforms_first_accepted:
  assumes trig: "lastPlatformY g > cam_scrollY env - 200"
    and free: "\<not> overlapsExisting (platforms g) (candidateX cfg d 0)
          (lastPlatformY g - platformSpacing g)"
  shows "platforms (generateNewPlatforms cfg env d g) =
           platforms g @ [new_Platform (candidateX cfg d 0) (lastPlatformY g - platformSpacing g)
                            (draw_platformType d)]"
    and "lastPlatformY (generateNewPlatforms cfg env d g) = lastPlatformY g - platformSpacing g"
proof -
  have i0: "\<not> validPosition (initialPlacement g)" "attempts (initialPlacement g) < 10"
    by (simp_all add: initialPlacement_def)
  have r: "placementLoop (platformSpacing g) (screenWidth cfg) (platforms g) (rand_platformX d) (initialPlacement g) =
      \<lparr> validPosition = True, attempts = 1, cand_x = Some (candidateX cfg d 0),
        cand_newY = Some (lastPlatformY g - platformSpacing g),
        cursorY = lastPlatformY g - platformSpacing g \<rparr>"
    using free
    by (subst placementLoop_step [OF i0])
       (simp add: initialPlacement_def placementLoop_stop candidateX_def)
  have g1: "generateNewPlatforms cfg env d g =
      spawnOnPlatform cfg d (candidateX cfg d 0) (lastPlatformY g - platformSpacing g)
        (g\<lparr>lastPlatformY := lastPlatformY g - platformSpacing g\<rparr>)"
    using generateNewPlatforms_accepted [OF trig, where d = d and cfg = cfg
        and x = "candidateX cfg d 0" and y = "lastPlatformY g - platformSpacing g"]
    by (simp add: r)
  show "platforms (generateNewPlatforms cfg env d g) =
           platforms g @ [new_Platform (candidateX cfg d 0) (lastPlatformY g - platformSpacing g)
                            (draw_platformType d)]"
    and "lastPlatformY (generateNewPlatforms cfg env d g) = lastPlatformY g - platformSpacing g"
    unfolding g1 by (simp_all add: spawnOnPlatform_fields)
qed

text \<open>
  C4. When \<open>generateNewPlatforms\<close> is triggered and each of its ten placement attempts is
  rejected, the call changes nothing but the cursor: no platform, enemy or power-up is
  created, and \<open>lastPlatformY\<close> has decreased by exactly ten times \<open>platformSpacing\<close>. The
  next call tests its trigger \<open>lastPlatformY > cameraTop - 200\<close> with the new cursor: when
  the test fails it does nothing, and when it holds the first candidate of that call lies
  one more spacing above the new cursor (and becomes a platform if it is free).
\<close>

theorem ten_rejections_advance_cursor:
  assumes "lastPlatformY g > cam_scrollY env - 200"
    and "\<forall>j<10. overlapsExisting (platforms g) (candidateX cfg d j)
          (lastPlatformY g - (real j + 1) * platformSpacing g)"
  shows "generateNewPlatforms cfg env d g =
           g\<lparr>lastPlatformY := lastPlatformY g - 10 * platformSpacing g\<rparr> \<and>
         (\<not> lastPlatformY g - 10 * platformSpacing g > cam_scrollY env' - 200 \<longrightarrow>
            generateNewPlatforms cfg env' d' (generateNewPlatforms cfg env d g) =
              generateNewPlatforms cfg env d g) \<and>
         (lastPlatformY g - 10 * platformSpacing g > cam_scrollY env' - 200 \<and>
          \<not> overlapsExisting (platforms g) (candidateX cfg d' 0)
               (lastPlatformY g - 11 * platformSpacing g) \<longrightarrow>
            platforms (generateNewPlatforms cfg env' d' (generateNewPlatforms cfg env d g)) =
              platforms g @ [new_Platform (candidateX cfg d' 0)
                               (lastPlatformY g - 11 * platformSpacing g) (draw_platformType d')] \<and>
            lastPlatformY (generateNewPlatforms cfg env' d' (generateNewPlatforms cfg env d g)) =
              lastPlatformY g - 11 * platformSpacing g)"
proof -
  let ?g1 = "g\<lparr>lastPlatformY := lastPlatformY g - 10 * platformSpacing g\<rparr>"
  have first: "generateNewPlatforms cfg env d g = ?g1"
    using assms by (rule generateNewPlatforms_all_rejected)
  have idle: "\<not> lastPlatformY g - 10 * platformSpacing g > cam_scrollY env' - 200 \<longrightarrow>
            generateNewPlatforms cfg env' d' ?g1 = ?g1"
    by (simp add: generateNewPlatforms_untriggered)
  have "lastPlatformY g - 10 * platformSpacing g > cam_scrollY env' - 200 \<and>
          \<not> overlapsExisting (platforms g) (candidateX cfg d' 0)
               (lastPlatformY g - 11 * platformSpacing g) \<longrightarrow>
            platforms (generateNewPlatforms cfg env' d' ?g1) =
              platforms g @ [new_Platform (candidateX cfg d' 0)
                               (lastPlatformY g - 11 * platformSpacing g) (draw_platformType d')] \<and>
            lastPlatformY (generateNewPlatforms cfg env' d' ?g1) =
              lastPlatformY g - 11 * platformSpacing g"
  proof (intro impI)
    assume a: "lastPlatformY g - 10 * platformSpacing g > cam_scrollY env' - 200 \<and>
          \<not> overlapsExisting (platforms g) (candidateX cfg d' 0)
               (lastPlatformY g - 11 * platformSpacing g)"
    have t: "lastPlatformY ?g1 > cam_scrollY env' - 200" using a by simp
    have f: "\<not> overlapsExisting (platforms ?g1) (candidateX cfg d' 0)
          (lastPlatformY ?g1 - platformSpacing ?g1)"
      using a by (simp add: algebra_simps)
    show "platforms (generateNewPlatforms cfg env' d' ?g1) =
              platforms g @ [new_Platform (candidateX cfg d' 0)
                               (lastPlatformY g - 11 * platformSpacing g) (draw_platformType d')] \<and>
            lastPlatformY (generateNewPlatforms cfg env' d' ?g1) =
              lastPlatformY g - 11 * platformSpacing g"
      using generateNewPlatforms_first_accepted [OF t f]
      by (simp add: algebra_simps)
  qed
  then show ?thesis using first idle by simp
qed

lemma crowded_candidate: "candidateX example_gameConfig crowded_draws k = 100"
  by (simp add: candidateX_def Between_def crowded_draws_def example_gameConfig_def)

lemma crowded_scene_rejects:
  "\<forall>j<10. overlapsExisting (platforms crowded_scene) (candidateX example_gameConfig crowded_draws j)
          (lastPlatformY crowded_scene - (real j + 1) * platformSpacing crowded_scene)"
proof (intro allI impI)
  fix j :: nat assume j: "j < 10"
  let ?p = "new_Platform 100 (940 - 60 * real j) ''normal''"
  have m: "?p \<in> set (platforms crowded_scene)"
    using j by (simp add: crowded_scene_def)
  have a: "ent_active ?p" by (simp add: new_Platform_def)
  have d: "Distance_Between 100 (1000 - (real j + 1) * 60) (ent_x ?p) (ent_y ?p) < 60"
    by (simp add: Distance_Between_less_60 new_Platform_def algebra_simps)
  have "overlapsExisting (platforms crowded_scene) 100 (1000 - (real j + 1) * 60)"
    unfolding overlapsExisting_iff using m a d by blast
  then show "overlapsExisting (platforms crowded_scene) (candidateX example_gameConfig crowded_draws j)
          (lastPlatformY crowded_scene - (real j + 1) * platformSpacing crowded_scene)"
    by (simp add: crowded_candidate crowded_scene_def)
qed

theorem ten_rejections_advance_cursor_witness:
  "lastPlatformY crowded_scene > cam_scrollY example_env - 200 \<and>
   platforms (generateNewPlatforms example_gameConfig example_env crowded_draws crowded_scene) =
     platforms crowded_scene \<and>
   enemies (generateNewPlatforms example_gameConfig example_env crowded_draws crowded_scene) = [] \<and>
   powerups (generateNewPlatforms example_gameConfig example_env crowded_draws crowded_scene) = [] \<and>
   lastPlatformY (generateNewPlatforms example_gameConfig example_env crowded_draws crowded_scene) = 400 \<and>
   lastPlatformY (generateNewPlatforms example_gameConfig example_env crowded_draws
     (generateNewPlatforms example_gameConfig example_env crowded_draws crowded_scene)) = 340"
proof -
  have t: "lastPlatformY crowded_scene > cam_scrollY example_env - 200"
    by (simp add: crowded_scene_def example_env_def)
  have far: "\<not> (60 * real j - 600) * (60 * real j - 600) < 3600" if "j < 10" for j :: nat
  proof -
    have "60 \<le> 600 - 60 * real j" using that by simp
    then have "60 * 60 \<le> (600 - 60 * real j) * (600 - 60 * real j)"
      by (intro mult_mono) simp_all
    then show ?thesis by (simp add: algebra_simps)
  qed
  have free: "\<not> overlapsExisting (platforms crowded_scene) (candidateX example_gameConfig crowded_draws 0)
               (lastPlatformY crowded_scene - 11 * platformSpacing crowded_scene)"
    using far
    by (simp add: overlapsExisting_def crowded_scene_def crowded_candidate new_Platform_def
        Distance_Between_less_60 list_ex_iff)
  have t': "lastPlatformY crowded_scene - 10 * platformSpacing crowded_scene > cam_scrollY example_env - 200"
    by (simp add: crowded_scene_def example_env_def)
  note th = ten_rejections_advance_cursor [OF t crowded_scene_rejects,
        where env' = example_env and d' = crowded_draws]
  have one: "generateNewPlatforms example_gameConfig example_env crowded_draws crowded_scene =
      crowded_scene\<lparr>lastPlatformY := lastPlatformY crowded_scene - 10 * platformSpacing crowded_scene\<rparr>"
    using th by blast
  have two: "lastPlatformY (generateNewPlatforms example_gameConfig example_env crowded_draws
     (generateNewPlatforms example_gameConfig example_env crowded_draws crowded_scene)) =
       lastPlatformY crowded_scene - 11 * platformSpacing crowded_scene"
    using th t' free by blast
  have f: "enemies crowded_scene = []" "powerups crowded_scene = []"
    "lastPlatformY crowded_scene = 1000" "platformSpacing crowded_scene = 60"
    by (simp_all add: crowded_scene_def)
  show ?thesis
    unfolding two unfolding one using t by (simp add: f)
qed

subsection \<open>Height and score\<close>

lemma Player_update_pos_y: "pos_y (fst (Player_update env c sj p)) = pos_y p"
  by (simp add: Player_update_fst checkFallOffScreen_frame updateAnimations_frame
      handleMovement_frame handleShooting_frame ups_frame)

lemma generateNewPlatforms_frame:
  "score (generateNewPlatforms cfg env d g) = score g"
  "highestY (generateNewPlatforms cfg env d g) = highestY g"
  "scene_player (generateNewPlatforms cfg env d g) = scene_player g"
  "gameStarted (generateNewPlatforms cfg env d g) = gameStarted g"
  "gameOver (generateNewPlatforms cfg env d g) = gameOver g"
  by (simp_all add: generateNewPlatforms_def spawnOnPlatform_def Let_def split: option.splits)

lemma cleanupOffScreenObjects_frame:
  "score (cleanupOffScreenObjects env g) = score g"
  "highestY (cleanupOffScreenObjects env g) = highestY g"
  "scene_player (cleanupOffScreenObjects env g) = scene_player g"
  "gameStarted (cleanupOffScreenObjects env g) = gameStarted g"
  "gameOver (cleanupOffScreenObjects env g) = gameOver g"
  by (simp_all add: cleanupOffScreenObjects_def Let_def)

lemma updateHeight_fields:
  "highestY (updateHeight cfg g) =
     max (highestY g) (max 0 \<lfloor>(screenHeight cfg - pos_y (scene_player g)) / 10\<rfloor>)"
  "score (updateHeight cfg g) =
     score g + (if max 0 \<lfloor>(screenHeight cfg - pos_y (scene_player g)) / 10\<rfloor> > highestY g
                then scoreMultiplier cfg else 0)"
  "scene_player (updateHeight cfg g) = scene_player g"
  "gameStarted (updateHeight cfg g) = gameStarted g"
  "gameOver (updateHeight cfg g) = gameOver g"
  by (auto simp add: updateHeight_def updateScore_def Let_def)

lemma GameScene_update_alt:
  "GameScene_update cfg env inp g =
     (if \<not> gameStarted g \<or> gameOver g then g
      else cleanupOffScreenObjects env (updateHeight cfg (generateNewPlatforms cfg env (in_draws inp)
             (g\<lparr>scene_player :=
                   fst (Player_update env (in_cursors inp) (in_spaceJustDown inp) (scene_player g)),
                bullets := bullets g @
                   snd (Player_update env (in_cursors inp) (in_spaceJustDown inp) (scene_player g)),
                platforms := map (in_platformUpdate inp) (platforms g),
                enemies := map (in_enemyUpdate inp) (enemies g),
                powerups := map (in_powerupUpdate inp) (powerups g)\<rparr>))))"
  by (simp add: GameScene_update_def Let_def case_prod_beta)

lemma GameScene_update_fields:
  "highestY (GameScene_update cfg env inp g) =
     (if \<not> gameStarted g \<or> gameOver g then highestY g
      else max (highestY g) (max 0 \<lfloor>(screenHeight cfg - pos_y (scene_player g)) / 10\<rfloor>))"
  "score (GameScene_update cfg env inp g) =
     (if \<not> gameStarted g \<or> gameOver g then score g
      else score g + (if max 0 \<lfloor>(screenHeight cfg - pos_y (scene_player g)) / 10\<rfloor> > highestY g
                      then scoreMultiplier cfg else 0))"
  "gameStarted (GameScene_update cfg env inp g) = gameStarted g"
  "gameOver (GameScene_update cfg env inp g) = gameOver g"
  by (simp_all add: GameScene_update_alt cleanupOffScreenObjects_frame updateHeight_fields
      generateNewPlatforms_frame Player_update_pos_y)

lemma overlap_fields:
  "highestY (playerPlatformOverlap onPlayerLand i g) = highestY g"
  "score (playerPlatformOverlap onPlayerLand i g) = score g"
  "highestY (playerEnemyOverlap stepOn i g) = highestY g"
  "score (playerEnemyOverlap stepOn i g) = score g \<or>
   score (playerEnemyOverlap stepOn i g) = score g + 100"
  "highestY (playerPowerupOverlap collect i g) = highestY g"
  "score (playerPowerupOverlap collect i g) = score g \<or>
   score (playerPowerupOverlap collect i g) = score g + 200"
  "highestY (bulletEnemyOverlap hitByBullet bi ei g) = highestY g"
  "score (bulletEnemyOverlap hitByBullet bi ei g) = score g \<or>
   score (bulletEnemyOverlap hitByBullet bi ei g) = score g + 150"
  by (simp_all add: playerPlatformOverlap_def playerEnemyOverlap_def playerPowerupOverlap_def
      bulletEnemyOverlap_def updateScore_def Let_def split: prod.splits)

lemma scene_apply_highestY: "highestY g \<le> highestY (scene_apply cfg e g)"
  by (cases e) (simp_all add: GameScene_update_fields overlap_fields)

lemma scene_apply_score: "0 \<le> scoreMultiplier cfg \<Longrightarrow> score g \<le> score (scene_apply cfg e g)"
proof (cases e)
  case (Frame env inp)
  assume "0 \<le> scoreMultiplier cfg"
  then show ?thesis using Frame by (simp add: GameScene_update_fields)
next
  case (PlayerPlatform f i)
  then show ?thesis by (simp add: overlap_fields)
next
  case (PlayerEnemy f i)
  then show ?thesis using overlap_fields(4) [of f i g] by auto
next
  case (PlayerPowerup f i)
  then show ?thesis using overlap_fields(6) [of f i g] by auto
next
  case (BulletEnemy f bi ei)
  then show ?thesis using overlap_fields(8) [of f bi ei g] by auto
next
  case (Engine x y vx vy ps es us bs)
  then show ?thesis by simp
qed

lemma scene_run_highestY: "highestY g \<le> highestY (scene_run cfg evs g)"
proof (induction evs arbitrary: g)
  case Nil
  show ?case by simp
next
  case (Cons e evs)
  have "highestY g \<le> highestY (scene_apply cfg e g)" by (rule scene_apply_highestY)
  also have "\<dots> \<le> highestY (scene_run cfg evs (scene_apply cfg e g))" by (rule Cons.IH)
  finally show ?case by simp
qed

lemma scene_run_score: "0 \<le> scoreMultiplier cfg \<Longrightarrow> score g \<le> score (scene_run cfg evs g)"
proof (induction evs arbitrary: g)
  case Nil
  show ?case by simp
next
  case (Cons e evs)
  have "score g \<le> score (scene_apply cfg e g)" using Cons.prems by (rule scene_apply_score)
  also have "\<dots> \<le> score (scene_run cfg evs (scene_apply cfg e g))"
    using Cons.prems by (rule Cons.IH)
  finally show ?case by simp
qed

text \<open>
  C5. Over any sequence of frames, overlap callbacks and engine steps (which may move the
  player down again), \<open>highestY\<close> never decreases; and the score never decreases, since every
  call of \<open>updateScore\<close> adds 100, 200, 150 or the configured \<open>scoreMultiplier\<close>, which is
  taken to be non-negative (gameConfig.json is not part of the sources).
\<close>

theorem height_and_score_monotone:
  "highestY g \<le> highestY (scene_run cfg evs g) \<and>
   (0 \<le> scoreMultiplier cfg \<longrightarrow> score g \<le> score (scene_run cfg evs g))"
  using scene_run_highestY [of g cfg evs] scene_run_score [of cfg g evs] by blast

theorem height_and_score_monotone_witness:
  "0 \<le> scoreMultiplier example_gameConfig \<and>
   highestY touching_scene = 0 \<and> score touching_scene = 0 \<and>
   highestY (scene_run example_gameConfig (take 2 climb_and_fall) touching_scene) = 50 \<and>
   highestY (scene_run example_gameConfig climb_and_fall touching_scene) = 50 \<and>
   score (scene_run example_gameConfig climb_and_fall touching_scene) = 10"
proof -
  have f: "gameStarted touching_scene" "\<not> gameOver touching_scene" "highestY touching_scene = 0"
    "score touching_scene = 0"
    by (simp_all add: touching_scene_def)
  have c: "screenHeight example_gameConfig = 800" "scoreMultiplier example_gameConfig = 10"
    by (simp_all add: example_gameConfig_def)
  have h2: "highestY (scene_run example_gameConfig (take 2 climb_and_fall) touching_scene) = 50"
    by (simp add: climb_and_fall_def GameScene_update_fields f c)
  have h4: "highestY (scene_run example_gameConfig climb_and_fall touching_scene) = 50"
    by (simp add: climb_and_fall_def GameScene_update_fields f c)
  have s4: "score (scene_run example_gameConfig climb_and_fall touching_scene) = 10"
    by (simp add: climb_and_fall_def GameScene_update_fields f c)
  show ?thesis
    using height_and_score_monotone [of touching_scene example_gameConfig climb_and_fall]
      h2 h4 s4 f c by simp
qed

subsection \<open>The overlap callbacks and the sweep\<close>

lemma playerPlatformOverlap_fires:
  "i < length (platforms g) \<Longrightarrow>
   playerPlatformOverlap onPlayerLand i g =
     (if vel_y (scene_player g) > 0 \<and> pos_y (scene_player g) < ent_y (platforms g ! i)
      then g\<lparr>platforms := (platforms g)[i := fst (onPlayerLand (platforms g ! i) (scene_player g))],
             scene_player := snd (onPlayerLand (platforms g ! i) (scene_player g))\<rparr>
      else g)"
  by (simp add: playerPlatformOverlap_def Let_def case_prod_beta)

lemma jump_fields:
  "vel_y (jump None p) = - jumpPower p * (if hasSpringShoes p then springShoesMultiplier p else 1)"
  "effects (jump None p) = effects p @ [PlaySound ''jump_sound'']"
  by (simp_all add: jump_def Let_def)

text \<open>
  C6. For an overlap of the player with a platform, the landing handler fires if and only if
  the player's vertical velocity is positive and the player's \<open>y\<close> is less than the
  platform's. When it fires, the vertical velocity becomes \<open>-jumpPower\<close>, multiplied by the
  spring-shoes multiplier when that flag is set (a negative value for a positive
  \<open>jumpPower\<close> and multiplier), and the jump sound is played; when it does not fire, the
  overlap changes nothing. The platform's \<open>onPlayerLand\<close> is the one modelled from the
  specification.
\<close>

theorem landing_only_when_falling_from_above:
  assumes "i < length (platforms g)"
  shows "(vel_y (scene_player g) > 0 \<and> pos_y (scene_player g) < ent_y (platforms g ! i) \<longrightarrow>
            vel_y (scene_player (playerPlatformOverlap Platform_onPlayerLand i g)) =
              - jumpPower (scene_player g) *
                (if hasSpringShoes (scene_player g) then springShoesMultiplier (scene_player g)
                 else 1) \<and>
            effects (scene_player (playerPlatformOverlap Platform_onPlayerLand i g)) =
              effects (scene_player g) @ [PlaySound ''jump_sound''] \<and>
            (0 < jumpPower (scene_player g) \<and>
             (hasSpringShoes (scene_player g) \<longrightarrow> 0 < springShoesMultiplier (scene_player g)) \<longrightarrow>
               vel_y (scene_player (playerPlatformOverlap Platform_onPlayerLand i g)) < 0)) \<and>
         (\<not> (vel_y (scene_player g) > 0 \<and> pos_y (scene_player g) < ent_y (platforms g ! i)) \<longrightarrow>
            playerPlatformOverlap Platform_onPlayerLand i g = g)"
proof -
  have neg: "- jumpPower (scene_player g) *
                (if hasSpringShoes (scene_player g) then springShoesMultiplier (scene_player g)
                 else 1) < 0"
    if "0 < jumpPower (scene_player g)"
      "hasSpringShoes (scene_player g) \<longrightarrow> 0 < springShoesMultiplier (scene_player g)"
    using that by (simp add: mult_pos_pos)
  show ?thesis
    using neg
    by (simp add: playerPlatformOverlap_fires [OF assms] Platform_onPlayerLand_def jump_fields)
qed

theorem landing_only_when_falling_from_above_witness:
  "0 < length (platforms landing_scene) \<and>
   vel_y (scene_player landing_scene) = 50 \<and> pos_y (scene_player landing_scene) = 100 \<and>
   ent_y (platforms landing_scene ! 0) = 150 \<and>
   vel_y (scene_player (playerPlatformOverlap Platform_onPlayerLand 0 landing_scene)) = - 500 \<and>
   playerPlatformOverlap Platform_onPlayerLand 0 rising_scene = rising_scene"
proof -
  have l: "0 < length (platforms landing_scene)" "vel_y (scene_player landing_scene) = 50"
    "pos_y (scene_player landing_scene) = 100" "ent_y (platforms landing_scene ! 0) = 150"
    "jumpPower (scene_player landing_scene) = 500" "\<not> hasSpringShoes (scene_player landing_scene)"
    by (simp_all add: landing_scene_def new_Platform_def example_player_fields)
  have r: "0 < length (platforms rising_scene)" "vel_y (scene_player rising_scene) = - 50"
    by (simp_all add: rising_scene_def)
  show ?thesis
    using landing_only_when_falling_from_above [OF l(1)]
      landing_only_when_falling_from_above [OF r(1)] l r
    by simp
qed

lemma bulletEnemyOverlap_fires:
  "bi < length (bullets g) \<Longrightarrow> ei < length (enemies g) \<Longrightarrow>
   bulletEnemyOverlap hitByBullet bi ei g =
     (if fst (hitByBullet (enemies g ! ei))
      then g\<lparr>enemies := (enemies g)[ei := snd (hitByBullet (enemies g ! ei))],
             bullets := (bullets g)[bi := destroy (bullets g ! bi)],
             score := score g + 150\<rparr>
      else g\<lparr>enemies := (enemies g)[ei := snd (hitByBullet (enemies g ! ei))]\<rparr>)"
  by (simp add: bulletEnemyOverlap_def updateScore_def Let_def case_prod_beta)

lemma Enemy_hitByBullet_fields:
  "fst (Enemy_hitByBullet e) = (ent_active e \<and> hitPoints e \<noteq> 0)"
  "\<not> fst (Enemy_hitByBullet e) \<Longrightarrow> snd (Enemy_hitByBullet e) = e"
  "ent_active e \<Longrightarrow> hitPoints e = 1 \<Longrightarrow> defeated (snd (Enemy_hitByBullet e))"
  "ent_active e \<Longrightarrow> hitPoints e > 1 \<Longrightarrow> \<not> defeated (snd (Enemy_hitByBullet e))"
  by (auto simp add: Enemy_hitByBullet_def defeated_def destroy_def Let_def)

text \<open>
  C7. For an overlap of a bullet with an enemy: whenever the enemy registers the hit, the
  bullet is destroyed and 150 is added to the score, whether the hit is lethal or not; a hit
  on an active enemy with one remaining hit point defeats the enemy, destroys the bullet and
  adds 150; a hit on an active enemy with more hit points does not defeat it and still
  destroys the bullet; when no hit is registered nothing changes. The enemy's \<open>hitByBullet\<close>
  is the one modelled from the specification.
\<close>

theorem bullet_hit_destroys_bullet:
  assumes "bi < length (bullets g)" and "ei < length (enemies g)"
  shows "(fst (Enemy_hitByBullet (enemies g ! ei)) \<longrightarrow>
            \<not> ent_active (bullets (bulletEnemyOverlap Enemy_hitByBullet bi ei g) ! bi) \<and>
            score (bulletEnemyOverlap Enemy_hitByBullet bi ei g) = score g + 150 \<and>
            enemies (bulletEnemyOverlap Enemy_hitByBullet bi ei g) ! ei =
              snd (Enemy_hitByBullet (enemies g ! ei))) \<and>
         (ent_active (enemies g ! ei) \<and> hitPoints (enemies g ! ei) = 1 \<longrightarrow>
            defeated (enemies (bulletEnemyOverlap Enemy_hitByBullet bi ei g) ! ei) \<and>
            \<not> ent_active (bullets (bulletEnemyOverlap Enemy_hitByBullet bi ei g) ! bi) \<and>
            score (bulletEnemyOverlap Enemy_hitByBullet bi ei g) = score g + 150) \<and>
         (ent_active (enemies g ! ei) \<and> hitPoints (enemies g ! ei) > 1 \<longrightarrow>
            \<not> defeated (enemies (bulletEnemyOverlap Enemy_hitByBullet bi ei g) ! ei) \<and>
            \<not> ent_active (bullets (bulletEnemyOverlap Enemy_hitByBullet bi ei g) ! bi)) \<and>
         (\<not> fst (Enemy_hitByBullet (enemies g ! ei)) \<longrightarrow>
            bulletEnemyOverlap Enemy_hitByBullet bi ei g = g)"
proof -
  let ?e = "enemies g ! ei"
  let ?g' = "bulletEnemyOverlap Enemy_hitByBullet bi ei g"
  have hit: "fst (Enemy_hitByBullet ?e) \<longrightarrow>
            \<not> ent_active (bullets ?g' ! bi) \<and> score ?g' = score g + 150 \<and>
            enemies ?g' ! ei = snd (Enemy_hitByBullet ?e)"
    using assms by (simp add: bulletEnemyOverlap_fires destroy_def)
  have one: "ent_active ?e \<and> hitPoints ?e = 1 \<longrightarrow>
            defeated (enemies ?g' ! ei) \<and> \<not> ent_active (bullets ?g' ! bi) \<and>
            score ?g' = score g + 150"
    using hit Enemy_hitByBullet_fields(1) [of ?e] Enemy_hitByBullet_fields(3) [of ?e] by simp
  have more: "ent_active ?e \<and> hitPoints ?e > 1 \<longrightarrow>
            \<not> defeated (enemies ?g' ! ei) \<and> \<not> ent_active (bullets ?g' ! bi)"
    using hit Enemy_hitByBullet_fields(1) [of ?e] Enemy_hitByBullet_fields(4) [of ?e] by simp
  have miss: "\<not> fst (Enemy_hitByBullet ?e) \<longrightarrow> ?g' = g"
    using assms Enemy_hitByBullet_fields(2) [of ?e]
    by (simp add: bulletEnemyOverlap_fires)
  show ?thesis using hit one more miss by blast
qed

theorem bullet_hit_destroys_bullet_witness:
  "0 < length (bullets (shooting_scene 1)) \<and> 0 < length (enemies (shooting_scene 1)) \<and>
   hitPoints (enemies (shooting_scene 1) ! 0) = 1 \<and>
   defeated (enemies (bulletEnemyOverlap Enemy_hitByBullet 0 0 (shooting_scene 1)) ! 0) \<and>
   \<not> ent_active (bullets (bulletEnemyOverlap Enemy_hitByBullet 0 0 (shooting_scene 1)) ! 0) \<and>
   score (bulletEnemyOverlap Enemy_hitByBullet 0 0 (shooting_scene 1)) = 150 \<and>
   \<not> defeated (enemies (bulletEnemyOverlap Enemy_hitByBullet 0 0 (shooting_scene 2)) ! 0) \<and>
   \<not> ent_active (bullets (bulletEnemyOverlap Enemy_hitByBullet 0 0 (shooting_scene 2)) ! 0)"
proof -
  have f: "0 < length (bullets (shooting_scene hp))" "0 < length (enemies (shooting_scene hp))"
    "hitPoints (enemies (shooting_scene hp) ! 0) = hp" "ent_active (enemies (shooting_scene hp) ! 0)"
    "score (shooting_scene hp) = 0" for hp
    by (simp_all add: shooting_scene_def touching_scene_def)
  show ?thesis
    using bullet_hit_destroys_bullet [OF f(1) f(2), of 1]
      bullet_hit_destroys_bullet [OF f(1) f(2), of 2] f
    by simp
qed

lemma forEachDestroying_stop:
  "\<not> k < len \<Longrightarrow> forEachDestroying leaves k len entries = entries"
  by (subst forEachDestroying.simps) simp

lemma forEachDestroying_destroy:
  "k < len \<Longrightarrow> k < length entries \<Longrightarrow> leaves (entries ! k) \<Longrightarrow>
   forEachDestroying leaves k len entries =
     forEachDestroying leaves (Suc k) len (removeAt k entries)"
  by (subst forEachDestroying.simps) simp

lemma forEachDestroying_keep:
  "k < len \<Longrightarrow> k < length entries \<Longrightarrow> \<not> leaves (entries ! k) \<Longrightarrow>
   forEachDestroying leaves k len entries = forEachDestroying leaves (Suc k) len entries"
  by (subst forEachDestroying.simps) simp

lemma forEachDestroying_past:
  "k < len \<Longrightarrow> \<not> k < length entries \<Longrightarrow>
   forEachDestroying leaves k len entries = forEachDestroying leaves (Suc k) len entries"
  by (subst forEachDestroying.simps) simp

lemma filter_removeAt:
  assumes "k < length entries" and "leaves (entries ! k)"
  shows "filter (\<lambda>e. \<not> leaves e) (removeAt k entries) = filter (\<lambda>e. \<not> leaves e) entries"
proof -
  have "entries = take k entries @ entries ! k # drop (Suc k) entries"
    using assms(1) by (rule id_take_nth_drop)
  then have "filter (\<lambda>e. \<not> leaves e) entries =
      filter (\<lambda>e. \<not> leaves e) (take k entries @ entries ! k # drop (Suc k) entries)"
    by simp
  also have "\<dots> = filter (\<lambda>e. \<not> leaves e) (removeAt k entries)"
    using assms(2) by (simp add: removeAt_def)
  finally show ?thesis by simp
qed

lemma forEachDestroying_keeps_inside:
  "filter (\<lambda>e. \<not> leaves e) (forEachDestroying leaves k len entries) =
     filter (\<lambda>e. \<not> leaves e) entries"
proof (induction "len - k" arbitrary: k entries)
  case 0
  then show ?case by (simp add: forEachDestroying_stop)
next
  case (Suc n)
  then have lt: "k < len" and n: "n = len - Suc k" by simp_all
  show ?case
  proof (cases "k < length entries")
    case False
    then show ?thesis using Suc.hyps(1) [OF n] lt by (simp add: forEachDestroying_past)
  next
    case True
    show ?thesis
    proof (cases "leaves (entries ! k)")
      case False
      then show ?thesis using Suc.hyps(1) [OF n] lt True by (simp add: forEachDestroying_keep)
    next
      case leave: True
      have "filter (\<lambda>e. \<not> leaves e) (forEachDestroying leaves k len entries) =
          filter (\<lambda>e. \<not> leaves e) (forEachDestroying leaves (Suc k) len (removeAt k entries))"
        using lt True leave by (simp add: forEachDestroying_destroy)
      also have "\<dots> = filter (\<lambda>e. \<not> leaves e) (removeAt k entries)"
        by (rule Suc.hyps(1) [OF n])
      also have "\<dots> = filter (\<lambda>e. \<not> leaves e) entries"
        using True leave by (rule filter_removeAt)
      finally show ?thesis .
    qed
  qed
qed

lemma sweep_keeps_inside:
  "filter (\<lambda>e. \<not> ent_y e > cam_scrollY env + cam_height env + 300)
      (platforms (cleanupOffScreenObjects env g)) =
   filter (\<lambda>e. \<not> ent_y e > cam_scrollY env + cam_height env + 300) (platforms g)"
  "filter (\<lambda>e. \<not> ent_y e > cam_scrollY env + cam_height env + 300)
      (enemies (cleanupOffScreenObjects env g)) =
   filter (\<lambda>e. \<not> ent_y e > cam_scrollY env + cam_height env + 300) (enemies g)"
  "filter (\<lambda>e. \<not> ent_y e > cam_scrollY env + cam_height env + 300)
      (powerups (cleanupOffScreenObjects env g)) =
   filter (\<lambda>e. \<not> ent_y e > cam_scrollY env + cam_height env + 300) (powerups g)"
  by (simp_all add: cleanupOffScreenObjects_def Let_def forEachDestroying_keeps_inside)

lemma sweep_keeps_bullets_inside:
  "filter (\<lambda>e. \<not> (ent_y e < cam_scrollY env - 100 \<or>
                     ent_y e > cam_scrollY env + cam_height env + 300))
      (bullets (cleanupOffScreenObjects env g)) =
   filter (\<lambda>e. \<not> (ent_y e < cam_scrollY env - 100 \<or>
                     ent_y e > cam_scrollY env + cam_height env + 300)) (bullets g)"
proof -
  have b: "bullets (cleanupOffScreenObjects env g) =
      forEachDestroying
        (\<lambda>e. ent_y e < cam_scrollY env - 100 \<or> ent_y e > cam_scrollY env + cam_height env + 300)
        0 (length (bullets g)) (bullets g)"
    by (simp add: cleanupOffScreenObjects_def Let_def)
  show ?thesis
    unfolding b by (rule forEachDestroying_keeps_inside)
qed

text \<open>
  C8 fails on the code. The sweep destroys members of a group while \<open>forEach\<close> runs over the
  group's own array, so the member that follows a destroyed one is skipped. With the camera
  at \<open>scrollY = 0\<close> and \<open>height = 800\<close> (bound 1100) and platforms at \<open>y = 1200, 1300, 500\<close>,
  the sweep destroys the first platform only: the platform at 1300, beyond the bound, is
  still in the group and active after the call.
\<close>

theorem sweep_skips_entry_after_destroyed:
  "platforms skipping_scene =
     [new_Platform 100 1200 ''normal'', new_Platform 100 1300 ''normal'',
      new_Platform 100 500 ''normal''] \<and>
   cam_scrollY example_env + cam_height example_env + 300 = 1100 \<and>
   platforms (cleanupOffScreenObjects example_env skipping_scene) =
     [new_Platform 100 1300 ''normal'', new_Platform 100 500 ''normal''] \<and>
   ent_y (new_Platform 100 1300 ''normal'') > 1100 \<and>
   ent_active (new_Platform 100 1300 ''normal'')"
proof -
  have p: "platforms skipping_scene =
     [new_Platform 100 1200 ''normal'', new_Platform 100 1300 ''normal'',
      new_Platform 100 500 ''normal'']"
    by (simp add: skipping_scene_def)
  have c: "cam_scrollY example_env + cam_height example_env + 300 = 1100"
    by (simp add: example_env_def)
  have y: "ent_y (new_Platform 100 1200 ''normal'') = 1200"
    "ent_y (new_Platform 100 1300 ''normal'') = 1300"
    "ent_y (new_Platform 100 500 ''normal'') = 500"
    "ent_active (new_Platform 100 1300 ''normal'')"
    by (simp_all add: new_Platform_def)
  have "forEachDestroying (\<lambda>platform. ent_y platform > 1100) 0 3
          [new_Platform 100 1200 ''normal'', new_Platform 100 1300 ''normal'',
           new_Platform 100 500 ''normal''] =
        forEachDestroying (\<lambda>platform. ent_y platform > 1100) (Suc 0) 3
          [new_Platform 100 1300 ''normal'', new_Platform 100 500 ''normal'']"
    by (subst forEachDestroying_destroy) (simp_all add: y removeAt_def)
  also have "\<dots> = forEachDestroying (\<lambda>platform. ent_y platform > 1100) (Suc (Suc 0)) 3
          [new_Platform 100 1300 ''normal'', new_Platform 100 500 ''normal'']"
    by (subst forEachDestroying_keep) (simp_all add: y)
  also have "\<dots> = forEachDestroying (\<lambda>platform. ent_y platform > 1100) (Suc (Suc (Suc 0))) 3
          [new_Platform 100 1300 ''normal'', new_Platform 100 500 ''normal'']"
    by (subst forEachDestroying_past) simp_all
  also have "\<dots> = [new_Platform 100 1300 ''normal'', new_Platform 100 500 ''normal'']"
    by (subst forEachDestroying_stop) simp_all
  finally have s: "forEachDestroying (\<lambda>platform. ent_y platform > 1100) 0 3
          [new_Platform 100 1200 ''normal'', new_Platform 100 1300 ''normal'',
           new_Platform 100 500 ''normal''] =
        [new_Platform 100 1300 ''normal'', new_Platform 100 500 ''normal'']" .
  have "platforms (cleanupOffScreenObjects example_env skipping_scene) =
     [new_Platform 100 1300 ''normal'', new_Platform 100 500 ''normal'']"
    by (simp add: cleanupOffScreenObjects_def Let_def c p s [unfolded numeral_3_eq_3])
  then show ?thesis using p c y by simp
qed

theorem sweep_skips_entry_after_destroyed_witness:
  "length (platforms (cleanupOffScreenObjects example_env skipping_scene)) = 2 \<and>
   ent_y (platforms (cleanupOffScreenObjects example_env skipping_scene) ! 0) >
     cam_scrollY example_env + cam_height example_env + 300 \<and>
   ent_active (platforms (cleanupOffScreenObjects example_env skipping_scene) ! 0)"
  using sweep_skips_entry_after_destroyed by simp

end
